theory Spec2Isabelle
  imports Complex_Main "HOL-Library.Word"
begin

section \<open>Game engine (game.c)\<close>

text \<open>
  The enumerations \<open>GAME_ROLE\<close> and \<open>INVITATION_STATE\<close> are declared in headers; game.c and
  invitation.c quote them in comments, in this order.
\<close>

datatype GAME_ROLE = NULL_ROLE | FIRST_PLAYER_ROLE | SECOND_PLAYER_ROLE

datatype INVITATION_STATE = INV_OPEN_STATE | INV_ACCEPTED_STATE | INV_CLOSED_STATE

text \<open>
  \<open>struct game\<close>: the C \<open>int\<close> flags stay integers, the board is the array of nine cells
  (0 empty, 1 X, 2 O). The mutex is not modelled: every operation runs to its end alone.
\<close>

record GAME =
  turn_X :: int
  num_turns :: int
  board :: "int list"
  winner :: GAME_ROLE
  terminated :: int
  g_ref_count :: int

record GAME_MOVE =
  player :: int
  square :: int

definition win :: "GAME \<Rightarrow> int \<Rightarrow> int" where
  "win game p =
     (let b = board game in
      if (b ! 0 = p \<and> b ! 1 = p \<and> b ! 2 = p) \<or>
         (b ! 3 = p \<and> b ! 4 = p \<and> b ! 5 = p) \<or>
         (b ! 6 = p \<and> b ! 7 = p \<and> b ! 8 = p) \<or>
         (b ! 0 = p \<and> b ! 3 = p \<and> b ! 6 = p) \<or>
         (b ! 1 = p \<and> b ! 4 = p \<and> b ! 7 = p) \<or>
         (b ! 2 = p \<and> b ! 5 = p \<and> b ! 8 = p) \<or>
         (b ! 0 = p \<and> b ! 4 = p \<and> b ! 8 = p) \<or>
         (b ! 2 = p \<and> b ! 4 = p \<and> b ! 6 = p)
      then 1 else 0)"

definition game_create :: GAME where
  "game_create =
     \<lparr>turn_X = 1, num_turns = 0, board = replicate 9 0, winner = NULL_ROLE,
      terminated = 0, g_ref_count = 1\<rparr>"

text \<open>
  \<open>game_apply_move\<close>: the result code (0 or -1) and the game after the call. The square is
  range-checked before the board is indexed, so \<open>!\<close> is only read inside the array.
\<close>

definition game_apply_move :: "GAME \<Rightarrow> GAME_MOVE \<Rightarrow> int \<times> GAME" where
  "game_apply_move game move =
     (if square move < 1 \<or> square move > 9 \<or> board game ! nat (square move - 1) \<noteq> 0
         \<or> (player move = 1 \<and> turn_X game \<noteq> 1)
         \<or> (player move = 2 \<and> turn_X game \<noteq> 0)
         \<or> terminated game \<noteq> 0
      then (- 1, game)
      else
        let g1 = game\<lparr>board := (board game)[nat (square move - 1) := player move]\<rparr>;
            g2 = g1\<lparr>turn_X := (if turn_X g1 \<noteq> 0 then 0 else 1)\<rparr>;
            g3 = (if win g2 1 \<noteq> 0 then g2\<lparr>winner := FIRST_PLAYER_ROLE, terminated := 1\<rparr> else g2);
            g4 = (if win g3 2 \<noteq> 0 then g3\<lparr>winner := SECOND_PLAYER_ROLE, terminated := 1\<rparr> else g3);
            g5 = g4\<lparr>num_turns := num_turns g4 + 1\<rparr>;
            g6 = (if num_turns g5 \<ge> 9 then g5\<lparr>terminated := 1\<rparr> else g5)
        in (0, g6))"

definition game_resign :: "GAME \<Rightarrow> GAME_ROLE \<Rightarrow> int \<times> GAME" where
  "game_resign game role =
     (if terminated game \<noteq> 0 then (- 1, game)
      else (0, game\<lparr>terminated := 1,
                     winner := (if role = FIRST_PLAYER_ROLE then SECOND_PLAYER_ROLE
                                else FIRST_PLAYER_ROLE)\<rparr>))"

definition cell_str :: "int \<Rightarrow> string" where
  "cell_str v = (if v = 0 then '' '' else if v = 1 then ''X'' else ''O'')"

definition game_unparse_state :: "GAME \<Rightarrow> string" where
  "game_unparse_state game =
     (let b = board game in
      cell_str (b ! 0) @ ''|'' @ cell_str (b ! 1) @ ''|'' @ cell_str (b ! 2) @ [CHR 0x0A] @
      ''-----'' @ [CHR 0x0A] @
      cell_str (b ! 3) @ ''|'' @ cell_str (b ! 4) @ ''|'' @ cell_str (b ! 5) @ [CHR 0x0A] @
      ''-----'' @ [CHR 0x0A] @
      cell_str (b ! 6) @ ''|'' @ cell_str (b ! 7) @ ''|'' @ cell_str (b ! 8) @ [CHR 0x0A] @
      ''It'' @ [CHR 0x27] @ ''s '' @ (if turn_X game \<noteq> 0 then ''X'' else ''O'') @
      [CHR 0x27] @ ''s turn'' @ [CHR 0x0A])"

definition game_is_over :: "GAME \<Rightarrow> int" where
  "game_is_over game = (if terminated game \<noteq> 0 then 1 else 0)"

definition game_get_winner :: "GAME \<Rightarrow> GAME_ROLE" where
  "game_get_winner game =
     (if terminated game \<noteq> 0 then winner game
      else if win game 1 \<noteq> 0 then FIRST_PLAYER_ROLE
      else if win game 2 \<noteq> 0 then SECOND_PLAYER_ROLE
      else NULL_ROLE)"

text \<open>
  A C \<open>char\<close> compared with a character constant: the byte read as a signed 8-bit value.
\<close>

definition c_char :: "char \<Rightarrow> int" where
  "c_char c = (if (of_char c :: nat) \<ge> 128 then int (of_char c) - 256 else int (of_char c))"

text \<open>
  \<open>game_parse_move\<close>: \<open>str\<close> is the C string (its bytes up to the terminating NUL), \<open>None\<close>
  is the NULL result. Only lengths 1 and 4 reach an index, so every \<open>!\<close> is in range.
\<close>

definition game_parse_move :: "GAME \<Rightarrow> GAME_ROLE \<Rightarrow> string \<Rightarrow> GAME_MOVE option" where
  "game_parse_move game role str =
     (let len = length str in
      if role \<noteq> NULL_ROLE \<and>
         ((role = FIRST_PLAYER_ROLE \<and> turn_X game = 0) \<or>
          (role = SECOND_PLAYER_ROLE \<and> turn_X game \<noteq> 0))
      then None
      else if len = 1 then
        (if c_char (str ! 0) < c_char CHR ''1'' \<or> c_char (str ! 0) > c_char CHR ''9'' then None
         else Some \<lparr>player = (if role = FIRST_PLAYER_ROLE then 1 else 2),
                     square = c_char (str ! 0) - c_char CHR ''0''\<rparr>)
      else if len = 4 then
        (if c_char (str ! 0) < c_char CHR ''1'' \<or> c_char (str ! 0) > c_char CHR ''9'' then None
         else if str ! 1 \<noteq> CHR ''<'' \<or> str ! 2 \<noteq> CHR ''-'' \<or>
                 (str ! 3 \<noteq> CHR ''X'' \<and> str ! 3 \<noteq> CHR ''O'') then None
         else Some \<lparr>player = (if str ! 3 = CHR ''X'' then 1 else 2),
                     square = c_char (str ! 0) - c_char CHR ''0''\<rparr>)
      else None)"

text \<open>
  \<open>sprintf("%d", n)\<close>: the decimal digits of an \<open>int\<close>, with a minus sign when negative.
  \<open>game_unparse_move\<close> writes them into a 3-byte buffer and the whole move into a 5-byte
  one; both are large enough exactly for the one-digit squares 1..9 of a legal move, and
  the model returns the string the \<open>strcat\<close> calls build.
\<close>

fun dec_nat :: "nat \<Rightarrow> string" where
  "dec_nat n = (if n < 10 then [char_of (48 + n)] else dec_nat (n div 10) @ [char_of (48 + n mod 10)])"

declare dec_nat.simps [simp del]

definition sprintf_d :: "int \<Rightarrow> string" where
  "sprintf_d n = (if n < 0 then ''-'' @ dec_nat (nat (- n)) else dec_nat (nat n))"


text \<open>A run of moves from a position: \<open>None\<close> as soon as one move is refused.\<close>

fun apply_moves :: "GAME \<Rightarrow> GAME_MOVE list \<Rightarrow> GAME option" where
  "apply_moves g [] = Some g"
| "apply_moves g (m # ms) =
     (case game_apply_move g m of (r, g') \<Rightarrow> if r = 0 then apply_moves g' ms else None)"

section \<open>Invitations (invitation.c)\<close>

text \<open>
  \<open>struct invitation\<close>. \<open>sender\<close> and \<open>recipient\<close> are addresses of CLIENT objects; the GAME
  is owned by the invitation alone, so the \<open>game\<close> pointer is the game itself or \<open>None\<close> (NULL).
\<close>

record INVITATION =
  i_ref_count :: int
  sender :: nat
  recipient :: nat
  source_role :: GAME_ROLE
  target_role :: GAME_ROLE
  game :: "GAME option"
  state :: INVITATION_STATE

definition inv_close :: "INVITATION \<Rightarrow> GAME_ROLE \<Rightarrow> int \<times> INVITATION" where
  "inv_close iv role =
     (if role = NULL_ROLE \<and> game iv \<noteq> None then (- 1, iv)
      else if state iv \<noteq> INV_OPEN_STATE \<and> state iv \<noteq> INV_ACCEPTED_STATE then (- 1, iv)
      else
        let iv1 = (case game iv of
                     Some g \<Rightarrow> if state iv = INV_ACCEPTED_STATE
                               then iv\<lparr>game := Some (snd (game_resign g role))\<rparr> else iv
                   | None \<Rightarrow> iv)
        in (0, iv1\<lparr>state := INV_CLOSED_STATE\<rparr>))"

section \<open>Players, packets and the server state\<close>

text \<open>
  \<open>struct player\<close>; the \<open>double\<close> rating is read as a real number.
\<close>

record PLAYER =
  username :: string
  rating :: real
  p_ref_count :: int

text \<open>
  \<open>JEUX_PACKET_HEADER\<close> (quoted in protocol.c): three bytes and a 16-bit size. The size
  field holds the payload length; \<open>htons\<close> and \<open>ntohs\<close> are inverse byte swaps between the
  stored and the host form and are left out. The clock fields are left out.
\<close>

record JEUX_PACKET_HEADER =
  h_type :: "8 word"
  h_id :: "8 word"
  h_role :: "8 word"
  h_size :: "16 word"

text \<open>
  Modelled from the spec: the values of \<open>JEUX_PACKET_TYPE\<close>, declared in protocol.h, which
  is not among the sources. The spec lists the message types in this order and names 0 as
  the unused type; only their being distinct matters below.
\<close>

definition JEUX_NO_PKT :: "8 word" where "JEUX_NO_PKT = 0"
definition JEUX_LOGIN_PKT :: "8 word" where "JEUX_LOGIN_PKT = 1"
definition JEUX_USERS_PKT :: "8 word" where "JEUX_USERS_PKT = 2"
definition JEUX_INVITE_PKT :: "8 word" where "JEUX_INVITE_PKT = 3"
definition JEUX_REVOKE_PKT :: "8 word" where "JEUX_REVOKE_PKT = 4"
definition JEUX_ACCEPT_PKT :: "8 word" where "JEUX_ACCEPT_PKT = 5"
definition JEUX_DECLINE_PKT :: "8 word" where "JEUX_DECLINE_PKT = 6"
definition JEUX_MOVE_PKT :: "8 word" where "JEUX_MOVE_PKT = 7"
definition JEUX_RESIGN_PKT :: "8 word" where "JEUX_RESIGN_PKT = 8"
definition JEUX_ACK_PKT :: "8 word" where "JEUX_ACK_PKT = 9"
definition JEUX_NACK_PKT :: "8 word" where "JEUX_NACK_PKT = 10"
definition JEUX_INVITED_PKT :: "8 word" where "JEUX_INVITED_PKT = 11"
definition JEUX_REVOKED_PKT :: "8 word" where "JEUX_REVOKED_PKT = 12"
definition JEUX_ACCEPTED_PKT :: "8 word" where "JEUX_ACCEPTED_PKT = 13"
definition JEUX_DECLINED_PKT :: "8 word" where "JEUX_DECLINED_PKT = 14"
definition JEUX_MOVED_PKT :: "8 word" where "JEUX_MOVED_PKT = 15"
definition JEUX_RESIGNED_PKT :: "8 word" where "JEUX_RESIGNED_PKT = 16"
definition JEUX_ENDED_PKT :: "8 word" where "JEUX_ENDED_PKT = 17"

text \<open>Modelled from the spec: \<open>MAX_CLIENTS\<close> (client_registry.h) is 64.\<close>

definition MAX_CLIENTS :: nat where "MAX_CLIENTS = 64"

text \<open>Modelled from the spec: \<open>PLAYER_INITIAL_RATING\<close> (player.h) is 1500.\<close>

definition PLAYER_INITIAL_RATING :: real where "PLAYER_INITIAL_RATING = 1500"

definition role_code :: "GAME_ROLE \<Rightarrow> 8 word" where
  "role_code r = (case r of NULL_ROLE \<Rightarrow> 0 | FIRST_PLAYER_ROLE \<Rightarrow> 1 | SECOND_PLAYER_ROLE \<Rightarrow> 2)"

text \<open>
  \<open>INVITATION_NODE\<close> and \<open>struct client\<close> (client.c). The doubly-linked list is the list of
  its nodes from the head; the \<open>player\<close> pointer is \<open>None\<close> when NULL.
\<close>

record INVITATION_NODE =
  n_invitation :: nat
  n_id :: int

record CLIENT =
  fd :: int
  ref_count :: int
  logged_in :: int
  c_player :: "nat option"
  invitations_head :: "INVITATION_NODE list"

text \<open>
  What the environment contributes: the condition of the connection behind a file
  descriptor (a write succeeds, fails with EPIPE, or fails otherwise) and the value of
  \<open>errno\<close> after a call, as far as the code reads it.
\<close>

datatype sock_status = SOCK_UP | SOCK_EPIPE | SOCK_ERR

datatype errno_val = E_NONE | EPIPE | E_OTHER

text \<open>A call of \<open>proto_send_packet\<close>: its arguments and what it returned.\<close>

record SEND =
  to_fd :: int
  pkt :: JEUX_PACKET_HEADER
  data :: "string option"
  ret :: int

text \<open>A call of \<open>player_post_result\<close>: its arguments.\<close>

record POST =
  player1 :: "nat option"
  player2 :: "nat option"
  outcome :: int

text \<open>
  The whole server: three heaps (CLIENT, INVITATION and PLAYER objects by address, with
  the next fresh address of each), the two registries, and the environment. The player
  registry is the list of its nodes from the head; the name of a node is \<open>None\<close> when the
  copy of the name could not be allocated. \<open>sent\<close> and \<open>posted\<close> record the calls of
  \<open>proto_send_packet\<close> and \<open>player_post_result\<close> in order.

  \<open>alloc\<close> lists the outcomes of the coming calls of \<open>malloc\<close> (also those inside \<open>strdup\<close>
  and \<open>realloc\<close>) and of \<open>pthread_mutex_init\<close>, in the order of the calls; when the list is
  empty they succeed. \<open>alloc_failed\<close> records that one of these calls has failed.
  \<open>crashed\<close> is set where the C code dereferences a null pointer, writes outside an
  allocated block or sends bytes it never wrote, and where \<open>Malloc\<close> ends the process; what
  the model returns after that point describes no execution. \<open>free\<close> is not modelled: an
  object whose count has reached 0 stays readable.
\<close>

record server_state =
  clients :: "nat \<Rightarrow> CLIENT"
  invs :: "nat \<Rightarrow> INVITATION"
  players :: "nat \<Rightarrow> PLAYER"
  client_next :: nat
  inv_next :: nat
  player_next :: nat
  creg :: "nat list"
  preg :: "(string option \<times> nat) list"
  sock :: "int \<Rightarrow> sock_status"
  errno :: errno_val
  sent :: "SEND list"
  posted :: "POST list"
  alloc :: "bool list"
  alloc_failed :: bool
  crashed :: bool

section \<open>Allocation\<close>

text \<open>
  \<open>malloc\<close> and \<open>pthread_mutex_init\<close> take their outcome from \<open>alloc\<close>; the result is whether
  the call succeeded. \<open>Malloc\<close> is the wrapper of csapp.c, which is not among the sources:
  it calls \<open>malloc\<close> and ends the process when the result is NULL.
\<close>

definition malloc :: "server_state \<Rightarrow> bool \<times> server_state" where
  "malloc s =
     (case alloc s of
        [] \<Rightarrow> (True, s)
      | b # bs \<Rightarrow> (b, s\<lparr>alloc := bs, alloc_failed := alloc_failed s \<or> \<not> b\<rparr>))"

definition pthread_mutex_init :: "server_state \<Rightarrow> bool \<times> server_state" where
  "pthread_mutex_init s =
     (case alloc s of
        [] \<Rightarrow> (True, s)
      | b # bs \<Rightarrow> (b, s\<lparr>alloc := bs, alloc_failed := alloc_failed s \<or> \<not> b\<rparr>))"

definition Malloc :: "server_state \<Rightarrow> server_state" where
  "Malloc s = (case malloc s of (ok, s1) \<Rightarrow> if ok then s1 else s1\<lparr>crashed := True\<rparr>)"

text \<open>
  The functions of game.c as they are called by the server, with their allocations.
  \<open>game_create\<close> above is the game that the call returns when \<open>malloc\<close> and
  \<open>pthread_mutex_init\<close> succeed; the call returns NULL when either fails.
  \<open>game_unparse_state\<close> returns NULL when its buffer cannot be allocated and reads the game
  otherwise. \<open>game_parse_move\<close> allocates the move once the string has been accepted.
  \<open>game_apply_move\<close> calls \<open>game_unparse_move\<close> for its log line once the move has been
  found legal; the two buffers of that function are used unchecked.
\<close>

definition game_create_call :: "server_state \<Rightarrow> GAME option \<times> server_state" where
  "game_create_call s =
     (case malloc s of (ok, s1) \<Rightarrow>
        if \<not> ok then (None, s1)
        else case pthread_mutex_init s1 of (ok2, s2) \<Rightarrow>
               if \<not> ok2 then (None, s2) else (Some game_create, s2))"

definition game_unparse_state_call ::
    "GAME option \<Rightarrow> server_state \<Rightarrow> string option \<times> server_state" where
  "game_unparse_state_call gm s =
     (case malloc s of (ok, s1) \<Rightarrow>
        if \<not> ok then (None, s1)
        else case gm of
               None \<Rightarrow> (None, s1\<lparr>crashed := True\<rparr>)
             | Some g \<Rightarrow> (Some (game_unparse_state g), s1))"

definition game_parse_move_call ::
    "GAME \<Rightarrow> GAME_ROLE \<Rightarrow> string \<Rightarrow> server_state \<Rightarrow> GAME_MOVE option \<times> server_state" where
  "game_parse_move_call g role str s =
     (case game_parse_move g role str of
        None \<Rightarrow> (None, s)
      | Some m \<Rightarrow> (case malloc s of (ok, s1) \<Rightarrow> if ok then (Some m, s1) else (None, s1)))"

definition game_apply_move_call ::
    "GAME \<Rightarrow> GAME_MOVE \<Rightarrow> server_state \<Rightarrow> int \<times> GAME \<times> server_state" where
  "game_apply_move_call g m s =
     (if fst (game_apply_move g m) = - 1 then (- 1, g, s)
      else
        case malloc s of (ok, s1) \<Rightarrow>
          if \<not> ok then (- 1, g, s1\<lparr>crashed := True\<rparr>)
          else case malloc s1 of (ok2, s2) \<Rightarrow>
                 if \<not> ok2 then (- 1, g, s2\<lparr>crashed := True\<rparr>)
                 else (0, snd (game_apply_move g m), s2))"

section \<open>Reference counts (player.c, client.c, invitation.c)\<close>

text \<open>
  A PLAYER pointer may be NULL (\<open>None\<close>); \<open>player_ref\<close> and \<open>player_unref\<close> then do nothing.
  CLIENT and INVITATION pointers that the code passes on are taken from live objects and
  are plain addresses.
\<close>

definition player_ref :: "nat option \<Rightarrow> server_state \<Rightarrow> server_state" where
  "player_ref pl s =
     (case pl of None \<Rightarrow> s
      | Some p \<Rightarrow> s\<lparr>players := (players s)(p := (players s p)\<lparr>p_ref_count := p_ref_count (players s p) + 1\<rparr>)\<rparr>)"

definition player_unref :: "nat option \<Rightarrow> server_state \<Rightarrow> server_state" where
  "player_unref pl s =
     (case pl of None \<Rightarrow> s
      | Some p \<Rightarrow> s\<lparr>players := (players s)(p := (players s p)\<lparr>p_ref_count := p_ref_count (players s p) - 1\<rparr>)\<rparr>)"

definition client_ref :: "nat \<Rightarrow> server_state \<Rightarrow> server_state" where
  "client_ref c s = s\<lparr>clients := (clients s)(c := (clients s c)\<lparr>ref_count := ref_count (clients s c) + 1\<rparr>)\<rparr>"

definition client_unref :: "nat \<Rightarrow> server_state \<Rightarrow> server_state" where
  "client_unref c s =
     (let s1 = s\<lparr>clients := (clients s)(c := (clients s c)\<lparr>ref_count := ref_count (clients s c) - 1\<rparr>)\<rparr>
      in if ref_count (clients s1 c) = 0 then player_unref (c_player (clients s1 c)) s1 else s1)"

definition inv_ref :: "nat \<Rightarrow> server_state \<Rightarrow> server_state" where
  "inv_ref ip s = s\<lparr>invs := (invs s)(ip := (invs s ip)\<lparr>i_ref_count := i_ref_count (invs s ip) + 1\<rparr>)\<rparr>"

definition game_unref :: "GAME \<Rightarrow> GAME" where
  "game_unref g = g\<lparr>g_ref_count := g_ref_count g - 1\<rparr>"

definition inv_unref :: "nat \<Rightarrow> server_state \<Rightarrow> server_state" where
  "inv_unref ip s =
     (let s1 = s\<lparr>invs := (invs s)(ip := (invs s ip)\<lparr>i_ref_count := i_ref_count (invs s ip) - 1\<rparr>)\<rparr>
      in if i_ref_count (invs s1 ip) = 0
         then
           let s2 = client_unref (sender (invs s1 ip)) s1;
               s3 = client_unref (recipient (invs s2 ip)) s2
           in s3\<lparr>invs := (invs s3)(ip := (invs s3 ip)\<lparr>game := map_option game_unref (game (invs s3 ip))\<rparr>)\<rparr>
         else s1)"

text \<open>
  \<open>inv_create\<close>: NULL (\<open>None\<close>) when the object or its mutex cannot be made; otherwise the
  address of the new invitation, and both clients are referenced.
\<close>

definition inv_create ::
    "nat \<Rightarrow> nat \<Rightarrow> GAME_ROLE \<Rightarrow> GAME_ROLE \<Rightarrow> server_state \<Rightarrow> nat option \<times> server_state" where
  "inv_create source target srole trole s =
     (case malloc s of (ok, s0) \<Rightarrow>
        if \<not> ok then (None, s0)
        else
          case pthread_mutex_init s0 of (ok2, s1) \<Rightarrow>
            if \<not> ok2 then (None, s1)
            else
              let ip = inv_next s1;
                  s2 = s1\<lparr>invs := (invs s1)(ip := \<lparr>i_ref_count = 1, sender = source, recipient = target,
                                                     source_role = srole, target_role = trole,
                                                     game = None, state = INV_OPEN_STATE\<rparr>),
                          inv_next := ip + 1\<rparr>
              in (Some ip, client_ref target (client_ref source s2)))"

text \<open>
  \<open>inv_accept\<close> on the invitation at an address: an invitation that is not OPEN is left
  alone. Otherwise the state is set to ACCEPTED and then the game is created; when
  \<open>game_create\<close> returns NULL the result is -1, with the state already changed.
\<close>

definition inv_accept :: "nat \<Rightarrow> server_state \<Rightarrow> int \<times> server_state" where
  "inv_accept ip s =
     (if state (invs s ip) \<noteq> INV_OPEN_STATE then (- 1, s)
      else
        let s1 = s\<lparr>invs := (invs s)(ip := (invs s ip)\<lparr>state := INV_ACCEPTED_STATE\<rparr>)\<rparr> in
        case game_create_call s1 of (g, s2) \<Rightarrow>
          let s3 = s2\<lparr>invs := (invs s2)(ip := (invs s2 ip)\<lparr>game := g\<rparr>)\<rparr> in
          if g = None then (- 1, s3) else (0, s3))"

section \<open>Sending packets (protocol.c, client.c)\<close>

text \<open>
  \<open>proto_send_packet\<close> clears \<open>errno\<close>, refuses a header whose size disagrees with the
  presence of a payload, and otherwise writes; a failed write leaves its error in \<open>errno\<close>.
  The call is recorded in \<open>sent\<close> with its result.
\<close>

definition proto_send_packet ::
    "int \<Rightarrow> JEUX_PACKET_HEADER \<Rightarrow> string option \<Rightarrow> server_state \<Rightarrow> int \<times> server_state" where
  "proto_send_packet f h d s =
     (let payload_size = unat (h_size h);
          (r, e) =
            (if (payload_size = 0 \<and> d \<noteq> None) \<or> (payload_size \<noteq> 0 \<and> d = None) then (- 1, E_NONE)
             else case sock s f of
                    SOCK_UP \<Rightarrow> (0, E_NONE)
                  | SOCK_EPIPE \<Rightarrow> (- 1, EPIPE)
                  | SOCK_ERR \<Rightarrow> (- 1, E_OTHER))
      in (r, s\<lparr>errno := e, sent := sent s @ [\<lparr>to_fd = f, pkt = h, data = d, ret = r\<rparr>]\<rparr>))"

text \<open>
  \<open>proto_recv_packet\<close>, for a frame that arrives whole: a frame with a payload needs a
  buffer, which is cleared before it is tested for NULL.
\<close>

definition proto_recv_packet :: "JEUX_PACKET_HEADER \<Rightarrow> server_state \<Rightarrow> server_state" where
  "proto_recv_packet h s =
     (if h_size h \<noteq> 0
      then (case malloc s of (ok, s1) \<Rightarrow> if ok then s1 else s1\<lparr>crashed := True\<rparr>)
      else s)"

definition client_send_packet ::
    "nat \<Rightarrow> JEUX_PACKET_HEADER \<Rightarrow> string option \<Rightarrow> server_state \<Rightarrow> int \<times> server_state" where
  "client_send_packet c h d s =
     (case proto_send_packet (fd (clients s c)) h d s of
        (r, s1) \<Rightarrow> if r = 0 then (0, s1) else (- 1, s1))"

text \<open>
  \<open>make_packet\<close> is the header that the function of client.c fills in;
  \<open>make_packet_call\<close> is the call, which returns NULL when the header cannot be allocated.
  \<open>construct_packet\<close> of server.c allocates with \<open>Malloc\<close>.
\<close>

definition make_packet :: "8 word \<Rightarrow> nat \<Rightarrow> JEUX_PACKET_HEADER" where
  "make_packet t sz = \<lparr>h_type = t, h_id = 0, h_role = 0, h_size = of_nat sz\<rparr>"

definition make_packet_call ::
    "8 word \<Rightarrow> nat \<Rightarrow> server_state \<Rightarrow> JEUX_PACKET_HEADER option \<times> server_state" where
  "make_packet_call t sz s =
     (case malloc s of (ok, s1) \<Rightarrow> if ok then (Some (make_packet t sz), s1) else (None, s1))"

definition client_send_ack :: "nat \<Rightarrow> string option \<Rightarrow> nat \<Rightarrow> server_state \<Rightarrow> int \<times> server_state" where
  "client_send_ack c d datalen s =
     (case make_packet_call JEUX_ACK_PKT datalen s of (ack_pkt, s0) \<Rightarrow>
        case ack_pkt of
          None \<Rightarrow> (- 1, s0)
        | Some h \<Rightarrow>
            (case client_send_packet c h d s0 of
               (r, s1) \<Rightarrow> if r = - 1 then (- 1, s1) else (0, s1)))"

definition client_send_nack :: "nat \<Rightarrow> server_state \<Rightarrow> int \<times> server_state" where
  "client_send_nack c s =
     (case make_packet_call JEUX_NACK_PKT 0 s of (nack_pkt, s0) \<Rightarrow>
        case nack_pkt of
          None \<Rightarrow> (- 1, s0)
        | Some h \<Rightarrow>
            (case client_send_packet c h None s0 of
               (r, s1) \<Rightarrow> if r = - 1 then (- 1, s1) else (0, s1)))"

section \<open>The invitation list of a client (client.c)\<close>

definition id_exists_in_client_invitation :: "CLIENT \<Rightarrow> int \<Rightarrow> int" where
  "id_exists_in_client_invitation cl i =
     (case find (\<lambda>n. n_id n = i) (invitations_head cl) of Some n \<Rightarrow> 1 | None \<Rightarrow> 0)"

text \<open>
  The loop of \<open>find_lowest_id_availalble\<close>, entered with \<open>i\<close>; the function starts it at 0.
  The C \<open>int\<close> is read as an unbounded integer (a list of fewer than 2^31 nodes cannot
  overflow it).
\<close>

function find_lowest_id_from :: "CLIENT \<Rightarrow> int \<Rightarrow> int" where
  "find_lowest_id_from cl i =
     (if id_exists_in_client_invitation cl i = 0 then i else find_lowest_id_from cl (i + 1))"
  by pat_completeness auto
termination
proof (relation "measure (\<lambda>(cl, i). nat (Max (n_id ` set (invitations_head cl)) + 1 - i))")
  show "wf (measure (\<lambda>(cl, i). nat (Max (n_id ` set (invitations_head cl)) + 1 - i)))"
    by simp
next
  fix cl :: CLIENT and i :: int
  assume a: "id_exists_in_client_invitation cl i \<noteq> 0"
  then obtain n where "find (\<lambda>n. n_id n = i) (invitations_head cl) = Some n"
    by (auto simp: id_exists_in_client_invitation_def split: option.splits)
  then have "i \<in> n_id ` set (invitations_head cl)"
    by (auto simp: find_Some_iff)
  then have "i \<le> Max (n_id ` set (invitations_head cl))"
    by simp
  then show "((cl, i + 1), (cl, i)) \<in> measure (\<lambda>(cl, i). nat (Max (n_id ` set (invitations_head cl)) + 1 - i))"
    by simp
qed

declare find_lowest_id_from.simps [simp del]

definition find_lowest_id_availalble :: "CLIENT \<Rightarrow> int" where
  "find_lowest_id_availalble cl = find_lowest_id_from cl 0"

text \<open>
  \<open>client_add_invitation\<close>: the node is allocated (-1 when that fails), gets the lowest
  free ID and goes to the front of the list; the invitation's count goes up.
\<close>

definition client_add_invitation :: "nat \<Rightarrow> nat \<Rightarrow> server_state \<Rightarrow> int \<times> server_state" where
  "client_add_invitation c ip s =
     (case malloc s of (ok, s0) \<Rightarrow>
        if \<not> ok then (- 1, s0)
        else
          let cl = clients s0 c;
              nid = find_lowest_id_availalble cl;
              s1 = s0\<lparr>clients := (clients s0)(c := cl\<lparr>invitations_head :=
                         \<lparr>n_invitation = ip, n_id = nid\<rparr> # invitations_head cl\<rparr>)\<rparr>
          in (nid, inv_ref ip s1))"

definition client_remove_invitation :: "nat \<Rightarrow> nat \<Rightarrow> server_state \<Rightarrow> int \<times> server_state" where
  "client_remove_invitation c ip s =
     (let cl = clients s c in
      case find (\<lambda>n. n_invitation n = ip) (invitations_head cl) of
        None \<Rightarrow> (- 1, s)
      | Some cur \<Rightarrow>
          (n_id cur,
           inv_unref ip (s\<lparr>clients := (clients s)(c := cl\<lparr>invitations_head :=
                             remove1 cur (invitations_head cl)\<rparr>)\<rparr>)))"

definition client_get_player :: "CLIENT \<Rightarrow> nat option" where
  "client_get_player cl = (if logged_in cl \<noteq> 0 then c_player cl else None)"

section \<open>Ratings (player.c)\<close>

text \<open>Conversion of a \<open>double\<close> to \<open>int\<close> in C: the fraction is dropped.\<close>

definition c_trunc :: "real \<Rightarrow> int" where
  "c_trunc x = (if x \<ge> 0 then \<lfloor>x\<rfloor> else \<lceil>x\<rceil>)"

definition result_scores :: "int \<Rightarrow> (real \<times> real) option" where
  "result_scores result =
     (if result = 0 then Some (1 / 2, 1 / 2)
      else if result = 1 then Some (1, 0)
      else if result = 2 then Some (0, 1)
      else None)"

text \<open>
  \<open>player_post_result\<close>: an invalid result returns at once; otherwise both ratings are
  read (a NULL player there is a null dereference) and updated, player1 first.
\<close>

definition player_post_result ::
    "nat option \<Rightarrow> nat option \<Rightarrow> int \<Rightarrow> server_state \<Rightarrow> server_state" where
  "player_post_result pl1 pl2 result s =
     (let s0 = s\<lparr>posted := posted s @ [\<lparr>player1 = pl1, player2 = pl2, outcome = result\<rparr>]\<rparr> in
      case result_scores result of
        None \<Rightarrow> s0
      | Some (score1, score2) \<Rightarrow>
          (case pl1 of
             None \<Rightarrow> s0\<lparr>crashed := True\<rparr>
           | Some p1 \<Rightarrow>
              (case pl2 of
                 None \<Rightarrow> s0\<lparr>crashed := True\<rparr>
               | Some p2 \<Rightarrow>
                   let rating_diff = rating (players s0 p2) - rating (players s0 p1);
                       exponent = rating_diff / 400;
                       expected1 = 1 / (1 + 10 powr exponent);
                       expected2 = 1 / (1 + 10 powr (- exponent));
                       rating_change1 = 32 * (score1 - expected1);
                       rating_change2 = 32 * (score2 - expected2);
                       s1 = s0\<lparr>players := (players s0)(p1 := (players s0 p1)
                                 \<lparr>rating := rating (players s0 p1) + rating_change1\<rparr>)\<rparr>;
                       s2 = s1\<lparr>players := (players s1)(p2 := (players s1 p2)
                                 \<lparr>rating := rating (players s1 p2) + rating_change2\<rparr>)\<rparr>
                   in s2)))"

section \<open>Operations of a client session (client.c)\<close>

text \<open>
  Each operation returns its C result (0 or an ID on success, -1 on failure) and the state
  it leaves. Every early \<open>return -1\<close> of the source is a branch here, with the state as it
  is at that point.
\<close>

text \<open>
  A notification as the operations below send it: the header is made by \<open>make_packet\<close>,
  its \<open>id\<close> and \<open>role\<close> are stored (a NULL header is dereferenced there), and it is handed to
  \<open>client_send_packet\<close>, whose result is the result here.
\<close>

definition send_notification ::
    "nat \<Rightarrow> 8 word \<Rightarrow> nat \<Rightarrow> 8 word \<Rightarrow> 8 word \<Rightarrow> string option \<Rightarrow> server_state \<Rightarrow>
     int \<times> server_state" where
  "send_notification target t sz i r d s =
     (case make_packet_call t sz s of (mk, s1) \<Rightarrow>
        case mk of
          None \<Rightarrow> (- 1, s1\<lparr>crashed := True\<rparr>)
        | Some hd0 \<Rightarrow> client_send_packet target (hd0\<lparr>h_id := i, h_role := r\<rparr>) d s1)"

definition client_make_invitation ::
    "nat \<Rightarrow> nat \<Rightarrow> GAME_ROLE \<Rightarrow> GAME_ROLE \<Rightarrow> server_state \<Rightarrow> int \<times> server_state" where
  "client_make_invitation source target srole trole s =
     (case inv_create source target srole trole s of (invitation, s1) \<Rightarrow>
      case invitation of
        None \<Rightarrow> (- 1, s1)
      | Some ip \<Rightarrow>
      case client_add_invitation source ip s1 of (client_id, s2) \<Rightarrow>
        if client_id = - 1 then (- 1, inv_unref ip s2)
        else
          case client_add_invitation target ip s2 of (target_id, s3) \<Rightarrow>
            if target_id = - 1 then (- 1, inv_unref ip s3)
            else
              case client_get_player (clients s3 source) of
                None \<Rightarrow> (- 1, s3\<lparr>crashed := True\<rparr>)
              | Some p \<Rightarrow>
                  let source_name = username (players s3 p) in
                  case send_notification target JEUX_INVITED_PKT (length source_name)
                         (of_int target_id) (role_code trole) (Some source_name) s3 of
                    (r, s5) \<Rightarrow> if r = - 1 then (- 1, s5) else (client_id, inv_unref ip s5))"

definition client_revoke_invitation :: "nat \<Rightarrow> int \<Rightarrow> server_state \<Rightarrow> int \<times> server_state" where
  "client_revoke_invitation c i s =
     (case find (\<lambda>n. n_id n = i) (invitations_head (clients s c)) of
        None \<Rightarrow> (- 1, s)
      | Some source_node \<Rightarrow>
          let ip = n_invitation source_node in
          if game (invs s ip) \<noteq> None then (- 1, s)
          else if sender (invs s ip) \<noteq> c then (- 1, s)
          else
            case client_remove_invitation c ip s of (r1, s1) \<Rightarrow>
              if r1 = - 1 then (- 1, s1)
              else
                let target = recipient (invs s1 ip) in
                case client_remove_invitation target ip s1 of (target_id, s2) \<Rightarrow>
                  if target_id = - 1 then (- 1, s2)
                  else
                    case send_notification target JEUX_REVOKED_PKT 0 (of_int target_id) 0 None s2 of
                      (r, s4) \<Rightarrow> if r = - 1 then (- 1, s4) else (0, s4))"

definition client_decline_invitation :: "nat \<Rightarrow> int \<Rightarrow> server_state \<Rightarrow> int \<times> server_state" where
  "client_decline_invitation c i s =
     (case find (\<lambda>n. n_id n = i) (invitations_head (clients s c)) of
        None \<Rightarrow> (- 1, s)
      | Some target_node \<Rightarrow>
          let ip = n_invitation target_node in
          if game (invs s ip) \<noteq> None then (- 1, s)
          else
            let target = recipient (invs s ip) in
            if target \<noteq> c then (- 1, s)
            else
              case client_remove_invitation target ip s of (r1, s1) \<Rightarrow>
                if r1 = - 1 then (- 1, s1)
                else
                  let source = sender (invs s1 ip) in
                  case client_remove_invitation source ip s1 of (source_id, s2) \<Rightarrow>
                    if source_id = - 1 then (- 1, s2)
                    else
                      case send_notification source JEUX_DECLINED_PKT 0 (of_int source_id) 0 None s2 of
                        (r, s4) \<Rightarrow> if r \<noteq> 0 then (- 1, s4) else (0, s4))"

text \<open>
  \<open>client_accept_invitation\<close> also returns what the caller's variable \<open>str\<close> holds after the
  call: the assignment \<open>strp = NULL\<close> of the first branch changes the local pointer only, so
  \<open>str\<close> keeps its initial NULL there; the other branch stores through it what
  \<open>game_unparse_state\<close> returned, which is NULL when the string could not be allocated.
  In the first branch the length of the string is taken unchecked.
\<close>

definition client_accept_invitation ::
    "nat \<Rightarrow> int \<Rightarrow> server_state \<Rightarrow> int \<times> string option \<times> server_state" where
  "client_accept_invitation c i s =
     (case find (\<lambda>n. n_id n = i) (invitations_head (clients s c)) of
        None \<Rightarrow> (- 1, None, s)
      | Some target_node \<Rightarrow>
          let ip = n_invitation target_node;
              target = recipient (invs s ip);
              source = sender (invs s ip)
          in
          if target \<noteq> c then (- 1, None, s)
          else if game (invs s ip) \<noteq> None then (- 1, None, s)
          else
            case inv_accept ip s of (ra, s1) \<Rightarrow>
              if ra = - 1 then (- 1, None, s1)
              else
                case find (\<lambda>n. n_invitation n = ip) (invitations_head (clients s1 source)) of
                  None \<Rightarrow> (- 1, None, s1)
                | Some source_node \<Rightarrow>
                    let source_id = n_id source_node in
                    case make_packet_call JEUX_ACCEPTED_PKT 0 s1 of (mk, s2) \<Rightarrow>
                    case mk of
                      None \<Rightarrow> (- 1, None, s2\<lparr>crashed := True\<rparr>)
                    | Some hd0 \<Rightarrow>
                        let accepted_pkt = hd0\<lparr>h_id := of_int source_id\<rparr> in
                        if source_role (invs s2 ip) = FIRST_PLAYER_ROLE then
                          (case game_unparse_state_call (game (invs s2 ip)) s2 of (st, s3) \<Rightarrow>
                           case st of
                             None \<Rightarrow> (- 1, None, s3\<lparr>crashed := True\<rparr>)
                           | Some state_str \<Rightarrow>
                               (case client_send_packet source
                                       (accepted_pkt\<lparr>h_size := of_nat (length state_str)\<rparr>)
                                       (Some state_str) s3 of
                                  (r, s4) \<Rightarrow> if r \<noteq> 0 then (- 1, None, s4) else (0, None, s4)))
                        else
                          (case game_unparse_state_call (game (invs s2 ip)) s2 of (st, s3) \<Rightarrow>
                           case client_send_packet source accepted_pkt None s3 of
                             (r, s4) \<Rightarrow> if r \<noteq> 0 then (- 1, st, s4) else (0, st, s4)))"

definition client_resign_game :: "nat \<Rightarrow> int \<Rightarrow> server_state \<Rightarrow> int \<times> server_state" where
  "client_resign_game c i s =
     (case find (\<lambda>n. n_id n = i) (invitations_head (clients s c)) of
        None \<Rightarrow> (- 1, s)
      | Some inv_node \<Rightarrow>
          let ip = n_invitation inv_node;
              source = sender (invs s ip);
              target = recipient (invs s ip)
          in
          if game (invs s ip) = None \<or> (source \<noteq> c \<and> target \<noteq> c) then (- 1, s)
          else
            let client_role = (if c = source then source_role (invs s ip) else target_role (invs s ip)) in
            case inv_close (invs s ip) client_role of (rc, iv) \<Rightarrow>
              if rc = - 1 then (- 1, s)
              else
                let s1 = s\<lparr>invs := (invs s)(ip := iv)\<rparr>;
                    opponent = (if c = source then target else source)
                in
                case find (\<lambda>n. n_invitation n = ip) (invitations_head (clients s1 opponent)) of
                  None \<Rightarrow> (- 1, s1)
                | Some opponent_node \<Rightarrow>
                    let opponent_id = n_id opponent_node in
                    case send_notification opponent JEUX_RESIGNED_PKT 0 (of_int opponent_id) 0 None s1 of
                      (r2, s2) \<Rightarrow>
                        if r2 \<noteq> 0 then (- 1, s2)
                        else
                          let wnr = (case game iv of Some g \<Rightarrow> game_get_winner g | None \<Rightarrow> NULL_ROLE) in
                          case send_notification opponent JEUX_ENDED_PKT 0 (of_int opponent_id)
                                 (role_code wnr) None s2 of
                            (r3, s3) \<Rightarrow>
                              if r3 \<noteq> 0 then (- 1, s3)
                              else
                                case send_notification c JEUX_ENDED_PKT 0 (of_int i)
                                       (role_code wnr) None s3 of
                                  (r4, s4) \<Rightarrow>
                                    if r4 \<noteq> 0 \<and> errno s4 \<noteq> EPIPE then (- 1, s4)
                                    else
                                      case client_remove_invitation source ip s4 of (r5, s5) \<Rightarrow>
                                        if r5 = - 1 then (- 1, s5)
                                        else
                                          case client_remove_invitation target ip s5 of (r6, s6) \<Rightarrow>
                                            if r6 = - 1 then (- 1, s6)
                                            else
                                              (0, player_post_result
                                                    (client_get_player (clients s6 source))
                                                    (client_get_player (clients s6 target))
                                                    (if c = source then 2 else 1) s6))"

text \<open>
  \<open>client_make_move\<close>. The move string is \<open>None\<close> when the caller passes NULL, which
  \<open>game_parse_move\<close> dereferences. The result handed to \<open>player_post_result\<close> is the C
  expression \<open>winner == NULL_ROLE ? 0.5 : winner == FIRST_PLAYER_ROLE ? 1 : 2\<close> stored in an
  \<open>int\<close>.
\<close>

definition move_result :: "GAME_ROLE \<Rightarrow> int" where
  "move_result wnr =
     c_trunc (if wnr = NULL_ROLE then 0.5 else if wnr = FIRST_PLAYER_ROLE then 1 else 2)"

definition client_make_move ::
    "nat \<Rightarrow> int \<Rightarrow> string option \<Rightarrow> server_state \<Rightarrow> int \<times> server_state" where
  "client_make_move c i move s =
     (case find (\<lambda>n. n_id n = i) (invitations_head (clients s c)) of
        None \<Rightarrow> (- 1, s)
      | Some inv_node \<Rightarrow>
          let ip = n_invitation inv_node;
              source = sender (invs s ip);
              target = recipient (invs s ip)
          in
          case game (invs s ip) of
            None \<Rightarrow> (- 1, s)
          | Some g \<Rightarrow>
              let client_role = (if c = source then source_role (invs s ip) else target_role (invs s ip)) in
              case move of
                None \<Rightarrow> (- 1, s\<lparr>crashed := True\<rparr>)
              | Some move_str \<Rightarrow>
              case game_parse_move_call g client_role move_str s of (parsed, sp) \<Rightarrow>
              case parsed of
                None \<Rightarrow> (- 1, sp)
              | Some game_move \<Rightarrow>
                  case game_apply_move_call g game_move sp of (ra, g', sa) \<Rightarrow>
                    if ra = - 1 then (- 1, sa)
                    else
                      let s1 = sa\<lparr>invs := (invs sa)(ip := (invs sa ip)\<lparr>game := Some g'\<rparr>)\<rparr>;
                          opponent = (if c = source then target else source)
                      in
                      case find (\<lambda>n. n_invitation n = ip) (invitations_head (clients s1 opponent)) of
                        None \<Rightarrow> (- 1, s1)
                      | Some opponent_node \<Rightarrow>
                          let opponent_id = n_id opponent_node in
                          case game_unparse_state_call (Some g') s1 of (st, s1a) \<Rightarrow>
                          case st of
                            None \<Rightarrow> (- 1, s1a\<lparr>crashed := True\<rparr>)
                          | Some state_str \<Rightarrow>
                          case send_notification opponent JEUX_MOVED_PKT (length state_str)
                                 (of_int opponent_id) 0 (Some state_str) s1a of
                            (r2, s2) \<Rightarrow>
                              if r2 \<noteq> 0 then (- 1, s2)
                              else if game_is_over g' = 0 then (0, s2)
                              else
                                let wnr = game_get_winner g' in
                                case send_notification opponent JEUX_ENDED_PKT 0 (of_int opponent_id)
                                       (role_code wnr) None s2 of
                                  (r3, s3) \<Rightarrow>
                                    if r3 \<noteq> 0 then (- 1, s3)
                                    else
                                      case send_notification c JEUX_ENDED_PKT 0 (of_int i)
                                             (role_code wnr) None s3 of
                                        (r4, s4) \<Rightarrow>
                                          if r4 \<noteq> 0 then (- 1, s4)
                                          else
                                            case client_remove_invitation source ip s4 of (r5, s5) \<Rightarrow>
                                              if r5 = - 1 then (- 1, s5)
                                              else
                                                case client_remove_invitation target ip s5 of (r6, s6) \<Rightarrow>
                                                  if r6 = - 1 then (- 1, s6)
                                                  else
                                                    (0, player_post_result
                                                          (if c = source then client_get_player (clients s6 source)
                                                           else client_get_player (clients s6 target))
                                                          (if c = source then client_get_player (clients s6 target)
                                                           else client_get_player (clients s6 source))
                                                          (move_result wnr) s6))"

section \<open>The registries (client_registry.c, player_registry.c)\<close>

text \<open>
  The client registry is the list of registered CLIENT addresses from the head; its
  \<open>client_count\<close> is the length of that list. The semaphore is not modelled.
  \<open>client_create\<close> returns NULL when the object or its mutex cannot be made;
  \<open>insert_client\<close> uses its node unchecked.
\<close>

definition client_create :: "int \<Rightarrow> server_state \<Rightarrow> nat option \<times> server_state" where
  "client_create f s =
     (case malloc s of (ok, s0) \<Rightarrow>
        if \<not> ok then (None, s0)
        else
          case pthread_mutex_init s0 of (ok2, s1) \<Rightarrow>
            if \<not> ok2 then (None, s1)
            else
              let c = client_next s1 in
              (Some c, s1\<lparr>clients := (clients s1)(c := \<lparr>fd = f, ref_count = 1, logged_in = 0,
                                                          c_player = None, invitations_head = []\<rparr>),
                           client_next := c + 1\<rparr>))"

definition insert_client :: "nat \<Rightarrow> server_state \<Rightarrow> server_state" where
  "insert_client c s =
     (case malloc s of (ok, s1) \<Rightarrow>
        if \<not> ok then s1\<lparr>crashed := True\<rparr> else s1\<lparr>creg := c # creg s1\<rparr>)"

definition fd_already_used :: "server_state \<Rightarrow> int \<Rightarrow> int" where
  "fd_already_used s f = (if list_ex (\<lambda>c. fd (clients s c) = f) (creg s) then 0 else - 1)"

definition creg_register :: "int \<Rightarrow> server_state \<Rightarrow> nat option \<times> server_state" where
  "creg_register f s =
     (if fd_already_used s f = 0 \<or> length (creg s) \<ge> MAX_CLIENTS then (None, s)
      else case client_create f s of (client_ptr, s1) \<Rightarrow>
             case client_ptr of
               None \<Rightarrow> (None, s1)
             | Some c \<Rightarrow> (Some c, insert_client c s1))"

definition creg_unregister :: "nat \<Rightarrow> server_state \<Rightarrow> int \<times> server_state" where
  "creg_unregister c s =
     (if fd_already_used s (fd (clients s c)) = - 1 then (- 1, s)
      else (0, client_unref c (s\<lparr>creg := remove1 c (creg s)\<rparr>)))"

definition creg_lookup :: "string option \<Rightarrow> server_state \<Rightarrow> nat option \<times> server_state" where
  "creg_lookup user s =
     (case user of
        None \<Rightarrow> (None, s)
      | Some u \<Rightarrow>
          (case find (\<lambda>c. case client_get_player (clients s c) of
                             None \<Rightarrow> False | Some p \<Rightarrow> username (players s p) = u) (creg s) of
             None \<Rightarrow> (None, s)
           | Some c \<Rightarrow> (Some c, client_ref c s)))"

text \<open>\<open>creg_all_players\<close>: NULL when the array cannot be allocated.\<close>

definition creg_all_players :: "server_state \<Rightarrow> nat list option \<times> server_state" where
  "creg_all_players s =
     (case malloc s of (ok, s0) \<Rightarrow>
        if \<not> ok then (None, s0)
        else
          let player_list = take MAX_CLIENTS
                              (List.map_filter (\<lambda>c. client_get_player (clients s0 c)) (creg s0))
          in (Some player_list, fold (\<lambda>p. player_ref (Some p)) player_list s0))"

text \<open>
  \<open>player_create\<close>: the object and the copy of the name are allocated with \<open>Malloc\<close>; NULL
  is returned when the mutex cannot be made, and the object stays allocated.
\<close>

definition player_create :: "string \<Rightarrow> server_state \<Rightarrow> nat option \<times> server_state" where
  "player_create name s =
     (let s1 = Malloc s;
          s2 = Malloc s1;
          p = player_next s2;
          s3 = s2\<lparr>players := (players s2)(p := \<lparr>username = name, rating = PLAYER_INITIAL_RATING,
                                                  p_ref_count = 1\<rparr>),
                  player_next := p + 1\<rparr>
      in case pthread_mutex_init s3 of (ok, s4) \<Rightarrow> if ok then (Some p, s4) else (None, s4))"

text \<open>
  The search of \<open>preg_register\<close> through the nodes: the player of the first node with the
  name (\<open>Some (Some p)\<close>), none (\<open>Some None\<close>), or a node without a name is reached and its
  NULL name is compared (\<open>None\<close>).
\<close>

fun preg_find :: "string \<Rightarrow> (string option \<times> nat) list \<Rightarrow> nat option option" where
  "preg_find name [] = Some None"
| "preg_find name (nd # nodes) =
     (case fst nd of
        None \<Rightarrow> None
      | Some n \<Rightarrow> if n = name then Some (Some (snd nd)) else preg_find name nodes)"

text \<open>
  \<open>preg_register\<close>: NULL when the player or the node cannot be made; the copy of the name
  that the node keeps is not checked.
\<close>

definition preg_register :: "string \<Rightarrow> server_state \<Rightarrow> nat option \<times> server_state" where
  "preg_register name s =
     (case preg_find name (preg s) of
        None \<Rightarrow> (None, s\<lparr>crashed := True\<rparr>)
      | Some (Some p) \<Rightarrow> (Some p, player_ref (Some p) s)
      | Some None \<Rightarrow>
          (case player_create name s of (created, s1) \<Rightarrow>
           case created of
             None \<Rightarrow> (None, s1)
           | Some p \<Rightarrow>
               (case malloc s1 of (ok, s2) \<Rightarrow>
                  if \<not> ok then (None, player_unref (Some p) s2)
                  else
                    case malloc s2 of (ok2, s3) \<Rightarrow>
                      let s4 = s3\<lparr>preg := ((if ok2 then Some name else None), p) # preg s3\<rparr>
                      in (Some p, player_ref (Some p) s4))))"

section \<open>Login and logout (client.c)\<close>

text \<open>
  \<open>check_if_other_clients_logged_in_with_same_player\<close>: the list of players is used
  unchecked. The name is \<open>None\<close> when \<open>client_login\<close> was given a NULL player; it is then
  compared at the first player of the list.
\<close>

definition check_if_other_clients_logged_in_with_same_player ::
    "string option \<Rightarrow> server_state \<Rightarrow> int \<times> server_state" where
  "check_if_other_clients_logged_in_with_same_player name s =
     (case creg_all_players s of (players_opt, s1) \<Rightarrow>
        case players_opt of
          None \<Rightarrow> (0, s1\<lparr>crashed := True\<rparr>)
        | Some player_list \<Rightarrow>
            (case name of
               None \<Rightarrow>
                 (case player_list of
                    [] \<Rightarrow> (0, s1)
                  | p # ps \<Rightarrow> (0, (player_unref (Some p) s1)\<lparr>crashed := True\<rparr>))
             | Some nm \<Rightarrow>
                 let s2 = fold (\<lambda>p. player_unref (Some p)) player_list s1
                 in ((if list_ex (\<lambda>p. username (players s2 p) = nm) player_list then 1 else 0), s2)))"

definition client_login :: "nat \<Rightarrow> nat option \<Rightarrow> server_state \<Rightarrow> int \<times> server_state" where
  "client_login c pl s =
     (if logged_in (clients s c) \<noteq> 0 then (- 1, s)
      else
        case check_if_other_clients_logged_in_with_same_player
               (map_option (\<lambda>p. username (players s p)) pl) s of
          (dup, s1) \<Rightarrow>
            if dup \<noteq> 0 then (- 1, s1)
            else (0, player_ref pl
                       (s1\<lparr>clients := (clients s1)(c := (clients s1 c)\<lparr>logged_in := 1, c_player := pl\<rparr>)\<rparr>)))"

text \<open>
  The body of the loop of \<open>client_logout\<close> for one node, and the loop over the nodes that
  were in the list when it started (\<open>next\<close> is read before the node is handled, and an
  operation removes no node but the one it is called for).
\<close>

definition logout_node :: "nat \<Rightarrow> INVITATION_NODE \<Rightarrow> server_state \<Rightarrow> server_state" where
  "logout_node c nd s =
     (if game (invs s (n_invitation nd)) \<noteq> None then snd (client_resign_game c (n_id nd) s)
      else if sender (invs s (n_invitation nd)) = c then snd (client_revoke_invitation c (n_id nd) s)
      else snd (client_decline_invitation c (n_id nd) s))"

definition client_logout :: "nat \<Rightarrow> server_state \<Rightarrow> int \<times> server_state" where
  "client_logout c s =
     (if logged_in (clients s c) = 0 then (- 1, s)
      else
        let s1 = player_unref (c_player (clients s c)) s
        in (0, fold (logout_node c) (invitations_head (clients s1 c)) s1))"

section \<open>The service loop (server.c)\<close>

text \<open>A C string held in a buffer: the bytes before the first NUL.\<close>

definition c_str :: "string \<Rightarrow> string" where
  "c_str bs = takeWhile (\<lambda>ch. ch \<noteq> CHR 0x00) bs"

text \<open>
  \<open>construct_packet\<close> is the header that the function of server.c fills in; the call
  allocates it with \<open>Malloc\<close>, which is written where the call stands.
\<close>

definition construct_packet :: "8 word \<Rightarrow> nat \<Rightarrow> JEUX_PACKET_HEADER" where
  "construct_packet t sz = \<lparr>h_type = t, h_id = 0, h_role = 0, h_size = of_nat sz\<rparr>"

definition check_if_other_clients_logged_in_with_same_name ::
    "string \<Rightarrow> server_state \<Rightarrow> int \<times> server_state" where
  "check_if_other_clients_logged_in_with_same_name name s =
     (case creg_all_players s of (players_opt, s1) \<Rightarrow>
        case players_opt of
          None \<Rightarrow> (0, s1\<lparr>crashed := True\<rparr>)
        | Some player_list \<Rightarrow>
            let s2 = fold (\<lambda>p. player_unref (Some p)) player_list s1
            in ((if list_ex (\<lambda>p. username (players s2 p) = name) player_list then 1 else 0), s2))"

text \<open>
  One branch of the \<open>switch\<close> each. The arguments are the session's CLIENT, the header and
  payload that \<open>proto_recv_packet\<close> delivered (a NULL payload is \<open>None\<close>), the thread's local
  \<open>logged_in\<close> and the state; the result is the new \<open>logged_in\<close> and state. In the LOGIN
  branch the copy of the name is allocated and written unchecked.
\<close>

definition service_login ::
    "nat \<Rightarrow> JEUX_PACKET_HEADER \<Rightarrow> string option \<Rightarrow> int \<Rightarrow> server_state \<Rightarrow> int \<times> server_state" where
  "service_login c h d li s =
     (if li = 0 then
        case malloc s of (ok, s0) \<Rightarrow>
          if \<not> ok then (li, s0\<lparr>crashed := True\<rparr>)
          else
            let p = c_str (take (unat (h_size h)) (case d of None \<Rightarrow> [] | Some bs \<Rightarrow> bs)) in
            case check_if_other_clients_logged_in_with_same_name p s0 of (dup, s1) \<Rightarrow>
              if dup \<noteq> 0 then (li, snd (client_send_nack c s1))
              else
                case preg_register p s1 of (pl, s2) \<Rightarrow>
                case client_login c pl s2 of (val, s3) \<Rightarrow>
                  if val = 0 then (1, snd (client_send_ack c None 0 s3))
                  else (li, snd (client_send_nack c s3))
      else (li, snd (client_send_nack c s)))"

text \<open>
  The USERS branch builds its payload line by line. \<open>users_loop\<close> is the \<open>for\<close> loop over the
  players: the reference is dropped, the line buffer is allocated and written unchecked,
  and the line is the start of the payload (\<open>strdup\<close>, whose NULL result is kept as it is) or
  is appended after a \<open>realloc\<close>, whose failure sends a NACK before the NULL is written to.
  The loop returns whether it ran to its end, the payload (\<open>None\<close> is NULL) and the sum of
  the lengths of the lines. After the loop the buffer is resized to that sum plus 5 and a
  NUL is stored at the offset of the sum plus the number of lines, which is outside the
  buffer for 5 lines or more; bytes that were never written would be sent when a \<open>strdup\<close>
  has failed.
\<close>

definition users_line :: "PLAYER \<Rightarrow> string" where
  "users_line pl = username pl @ [CHR 0x09] @ sprintf_d (c_trunc (rating pl)) @ [CHR 0x0A]"

fun users_loop ::
    "nat \<Rightarrow> nat list \<Rightarrow> string option \<Rightarrow> nat \<Rightarrow> server_state \<Rightarrow>
     bool \<times> string option \<times> nat \<times> server_state" where
  "users_loop c [] str_payload tsize s = (True, str_payload, tsize, s)"
| "users_loop c (p # ps) str_payload tsize s =
     (let s1 = player_unref (Some p) s;
          ln = users_line (players s1 p)
      in case malloc s1 of (ok, s2) \<Rightarrow>
           if \<not> ok then (False, str_payload, tsize, s2\<lparr>crashed := True\<rparr>)
           else
             case malloc s2 of (ok2, s3) \<Rightarrow>
               (case str_payload of
                  None \<Rightarrow> users_loop c ps (if ok2 then Some ln else None) (tsize + length ln) s3
                | Some str \<Rightarrow>
                    if ok2 then users_loop c ps (Some (str @ ln)) (tsize + length ln) s3
                    else (False, None, tsize + length ln,
                          (snd (client_send_nack c s3))\<lparr>crashed := True\<rparr>)))"

definition service_users ::
    "nat \<Rightarrow> JEUX_PACKET_HEADER \<Rightarrow> string option \<Rightarrow> int \<Rightarrow> server_state \<Rightarrow> int \<times> server_state" where
  "service_users c h d li s =
     (if li = 0 then (li, snd (client_send_nack c s))
      else
        case creg_all_players s of (players_opt, s1) \<Rightarrow>
          case players_opt of
            None \<Rightarrow> (li, s1\<lparr>crashed := True\<rparr>)
          | Some player_list \<Rightarrow>
              (case users_loop c player_list None 0 s1 of (finished, str_payload, tsize, s2) \<Rightarrow>
                 if \<not> finished then (li, s2)
                 else
                   case malloc s2 of (ok, s3) \<Rightarrow>
                     if \<not> ok then (li, snd (client_send_nack c s3))
                     else if length player_list \<ge> 5 then (li, s3\<lparr>crashed := True\<rparr>)
                     else
                       let bytes = (case str_payload of None \<Rightarrow> [] | Some str \<Rightarrow> str) in
                       if length bytes \<noteq> tsize then (li, s3\<lparr>crashed := True\<rparr>)
                       else (li, snd (client_send_ack c (Some bytes) tsize s3))))"

definition service_invite ::
    "nat \<Rightarrow> JEUX_PACKET_HEADER \<Rightarrow> string option \<Rightarrow> int \<Rightarrow> server_state \<Rightarrow> int \<times> server_state" where
  "service_invite c h d li s =
     (if li = 0 then (li, snd (client_send_nack c s))
      else
        case creg_lookup (map_option c_str d) s of (target_client, s1) \<Rightarrow>
          (case target_client of
             None \<Rightarrow> (li, snd (client_send_nack c s1))
           | Some t \<Rightarrow>
               if t = c then (li, snd (client_send_nack c (client_unref t s1)))
               else if h_role h \<noteq> 1 \<and> h_role h \<noteq> 2 then (li, snd (client_send_nack c s1))
               else
                 let source_role' = (if h_role h = 1 then SECOND_PLAYER_ROLE else FIRST_PLAYER_ROLE);
                     target_role' = (if h_role h = 1 then FIRST_PLAYER_ROLE else SECOND_PLAYER_ROLE)
                 in
                 case client_make_invitation c t source_role' target_role' s1 of (source_id, s2) \<Rightarrow>
                   if source_id = - 1 then (li, snd (client_send_nack c s2))
                   else
                     let s3 = Malloc (client_unref t s2);
                         ack_pkt = (construct_packet JEUX_ACK_PKT 0)\<lparr>h_id := of_int source_id\<rparr>
                     in (li, snd (client_send_packet c ack_pkt None s3))))"

definition service_revoke ::
    "nat \<Rightarrow> JEUX_PACKET_HEADER \<Rightarrow> string option \<Rightarrow> int \<Rightarrow> server_state \<Rightarrow> int \<times> server_state" where
  "service_revoke c h d li s =
     (if li = 0 then (li, snd (client_send_nack c s))
      else
        case client_revoke_invitation c (uint (h_id h)) s of (r, s1) \<Rightarrow>
          if r = - 1 then (li, snd (client_send_nack c s1))
          else (li, snd (client_send_ack c None 0 s1)))"

definition service_decline ::
    "nat \<Rightarrow> JEUX_PACKET_HEADER \<Rightarrow> string option \<Rightarrow> int \<Rightarrow> server_state \<Rightarrow> int \<times> server_state" where
  "service_decline c h d li s =
     (if li = 0 then (li, snd (client_send_nack c s))
      else
        case client_decline_invitation c (uint (h_id h)) s of (r, s1) \<Rightarrow>
          if r = - 1 then (li, snd (client_send_nack c s1))
          else (li, snd (client_send_ack c None 0 s1)))"

definition service_accept ::
    "nat \<Rightarrow> JEUX_PACKET_HEADER \<Rightarrow> string option \<Rightarrow> int \<Rightarrow> server_state \<Rightarrow> int \<times> server_state" where
  "service_accept c h d li s =
     (if li = 0 then (li, snd (client_send_nack c s))
      else
        case client_accept_invitation c (uint (h_id h)) s of (r, str, s1) \<Rightarrow>
          if r = - 1 then (li, snd (client_send_nack c s1))
          else
            let s2 = Malloc s1;
                ack0 = (construct_packet JEUX_ACK_PKT 0)\<lparr>h_id := of_int (uint (h_id h))\<rparr>;
                ack_pkt = (case str of None \<Rightarrow> ack0
                           | Some t \<Rightarrow> ack0\<lparr>h_size := of_nat (length t)\<rparr>)
            in (li, snd (client_send_packet c ack_pkt str s2)))"

text \<open>
  The MOVE branch copies the payload with \<open>copy_payload\<close>, which returns NULL when the copy
  cannot be allocated; the result is passed on unchecked.
\<close>

definition service_move ::
    "nat \<Rightarrow> JEUX_PACKET_HEADER \<Rightarrow> string option \<Rightarrow> int \<Rightarrow> server_state \<Rightarrow> int \<times> server_state" where
  "service_move c h d li s =
     (if li = 0 then (li, snd (client_send_nack c s))
      else
        case malloc s of (ok, s0) \<Rightarrow>
          let p = (if ok
                   then Some (c_str (take (unat (h_size h)) (case d of None \<Rightarrow> [] | Some bs \<Rightarrow> bs)))
                   else None)
          in
          case client_make_move c (uint (h_id h)) p s0 of (r, s1) \<Rightarrow>
            if r = - 1 then (li, snd (client_send_nack c s1))
            else (li, snd (client_send_ack c None 0 s1)))"

definition service_resign ::
    "nat \<Rightarrow> JEUX_PACKET_HEADER \<Rightarrow> string option \<Rightarrow> int \<Rightarrow> server_state \<Rightarrow> int \<times> server_state" where
  "service_resign c h d li s =
     (if li = 0 then (li, snd (client_send_nack c s))
      else
        case client_resign_game c (uint (h_id h)) s of (r, s1) \<Rightarrow>
          if r = - 1 then (li, snd (client_send_nack c s1))
          else (li, snd (client_send_ack c None 0 s1)))"

text \<open>
  The body of the \<open>while\<close> loop of \<open>jeux_client_service\<close> for one received frame: the
  \<open>switch\<close> on the header's type. It has a case for \<open>JEUX_NO_PKT\<close> that only logs, and no
  \<open>default\<close>.
\<close>

definition service_frame ::
    "nat \<Rightarrow> JEUX_PACKET_HEADER \<Rightarrow> string option \<Rightarrow> int \<times> server_state \<Rightarrow> int \<times> server_state" where
  "service_frame c h d ls =
     (case ls of (li, s) \<Rightarrow>
        if h_type h = JEUX_NO_PKT then (li, s)
        else if h_type h = JEUX_LOGIN_PKT then service_login c h d li s
        else if h_type h = JEUX_USERS_PKT then service_users c h d li s
        else if h_type h = JEUX_INVITE_PKT then service_invite c h d li s
        else if h_type h = JEUX_REVOKE_PKT then service_revoke c h d li s
        else if h_type h = JEUX_DECLINE_PKT then service_decline c h d li s
        else if h_type h = JEUX_ACCEPT_PKT then service_accept c h d li s
        else if h_type h = JEUX_MOVE_PKT then service_move c h d li s
        else if h_type h = JEUX_RESIGN_PKT then service_resign c h d li s
        else (li, s))"

text \<open>
  The start of the thread: the client is registered (the thread ends at once when that is
  refused) and the header buffer is allocated with \<open>Malloc\<close>.
\<close>

definition service_start :: "int \<Rightarrow> server_state \<Rightarrow> nat option \<times> server_state" where
  "service_start f s =
     (case creg_register f s of (client_ptr, s1) \<Rightarrow>
        case client_ptr of
          None \<Rightarrow> (None, s1)
        | Some c \<Rightarrow> (Some c, Malloc s1))"

text \<open>
  The end of the thread, after the loop has seen end of file: the \<open>player\<close> that is unref'ed
  is the outer variable, which is still NULL (the LOGIN branch declares its own), then
  logout and unregistration.
\<close>

definition service_exit :: "nat \<Rightarrow> int \<Rightarrow> server_state \<Rightarrow> server_state" where
  "service_exit c li s =
     (let s1 = (if li \<noteq> 0 then player_unref None s else s);
          s2 = snd (client_logout c s1)
      in snd (creg_unregister c s2))"

text \<open>
  The whole thread, for a connection on which the given frames arrive before end of file.
\<close>

definition jeux_client_service ::
    "int \<Rightarrow> (JEUX_PACKET_HEADER \<times> string option) list \<Rightarrow> server_state \<Rightarrow> server_state" where
  "jeux_client_service f frames s =
     (case service_start f s of
        (None, s1) \<Rightarrow> s1
      | (Some c, s1) \<Rightarrow>
          (case fold (\<lambda>fr ls. service_frame c (fst fr) (snd fr)
                                 (fst ls, proto_recv_packet (fst fr) (snd ls))) frames (0, s1) of
             (li, s2) \<Rightarrow> service_exit c li s2))"

text \<open>
  What \<open>proto_recv_packet\<close> can deliver: no payload exactly when the size is 0, and
  otherwise as many bytes as the size says.
\<close>

definition frame_ok :: "JEUX_PACKET_HEADER \<Rightarrow> string option \<Rightarrow> bool" where
  "frame_ok h d = (case d of None \<Rightarrow> h_size h = 0
                   | Some bs \<Rightarrow> h_size h \<noteq> 0 \<and> length bs = unat (h_size h))"

section \<open>Runs of the server\<close>

definition init_state :: server_state where
  "init_state =
     \<lparr>clients = (\<lambda>a. \<lparr>fd = - 1, ref_count = 0, logged_in = 0, c_player = None, invitations_head = []\<rparr>),
      invs = (\<lambda>a. \<lparr>i_ref_count = 0, sender = 0, recipient = 0, source_role = NULL_ROLE,
                    target_role = NULL_ROLE, game = None, state = INV_CLOSED_STATE\<rparr>),
      players = (\<lambda>a. \<lparr>username = [], rating = 0, p_ref_count = 0\<rparr>),
      client_next = 0, inv_next = 0, player_next = 0,
      creg = [], preg = [],
      sock = (\<lambda>f. SOCK_UP), errno = E_NONE, sent = [], posted = [],
      alloc = [], alloc_failed = False, crashed = False\<rparr>"

text \<open>
  The states the server can be in, with the local \<open>logged_in\<close> of the thread serving each
  registered client: threads take turns frame by frame (each frame is received and
  handled without interference), a connection is accepted or refused, a thread sees end
  of file and leaves, and the environment changes the condition of sockets and of the
  allocator at any time.
\<close>

inductive reachable :: "(nat \<Rightarrow> int) \<Rightarrow> server_state \<Rightarrow> bool" where
  r_init: "reachable (\<lambda>c. 0) init_state"
| r_env: "reachable L s \<Longrightarrow> reachable L (s\<lparr>sock := k, alloc := a\<rparr>)"
| r_connect: "reachable L s \<Longrightarrow> service_start f s = (Some c, s') \<Longrightarrow> reachable (L(c := 0)) s'"
| r_refused: "reachable L s \<Longrightarrow> service_start f s = (None, s') \<Longrightarrow> reachable L s'"
| r_frame: "reachable L s \<Longrightarrow> c \<in> set (creg s) \<Longrightarrow> frame_ok h d \<Longrightarrow>
            service_frame c h d (L c, proto_recv_packet h s) = (li, s') \<Longrightarrow> reachable (L(c := li)) s'"
| r_exit: "reachable L s \<Longrightarrow> c \<in> set (creg s) \<Longrightarrow> reachable L (service_exit c (L c) s)"

section \<open>Predicates used in the statements\<close>

text \<open>The legality test of \<open>game_apply_move\<close> and the position it produces, by name.\<close>

definition move_illegal :: "GAME \<Rightarrow> GAME_MOVE \<Rightarrow> bool" where
  "move_illegal g m = (square m < 1 \<or> square m > 9 \<or> board g ! nat (square m - 1) \<noteq> 0
         \<or> (player m = 1 \<and> turn_X g \<noteq> 1)
         \<or> (player m = 2 \<and> turn_X g \<noteq> 0)
         \<or> terminated g \<noteq> 0)"

definition move_result_game :: "GAME \<Rightarrow> GAME_MOVE \<Rightarrow> GAME" where
  "move_result_game g m =
     (let g1 = g\<lparr>board := (board g)[nat (square m - 1) := player m]\<rparr>;
          g2 = g1\<lparr>turn_X := (if turn_X g1 \<noteq> 0 then 0 else 1)\<rparr>;
          g3 = (if win g2 1 \<noteq> 0 then g2\<lparr>winner := FIRST_PLAYER_ROLE, terminated := 1\<rparr> else g2);
          g4 = (if win g3 2 \<noteq> 0 then g3\<lparr>winner := SECOND_PLAYER_ROLE, terminated := 1\<rparr> else g3);
          g5 = g4\<lparr>num_turns := num_turns g4 + 1\<rparr>
      in (if num_turns g5 \<ge> 9 then g5\<lparr>terminated := 1\<rparr> else g5))"

text \<open>
  A reply is an ACK or a NACK; every other packet the server sends is a notification.
\<close>

definition is_reply :: "SEND \<Rightarrow> bool" where
  "is_reply x = (h_type (pkt x) = JEUX_ACK_PKT \<or> h_type (pkt x) = JEUX_NACK_PKT)"

definition notif_type :: "8 word \<Rightarrow> bool" where
  "notif_type t = (t \<noteq> JEUX_ACK_PKT \<and> t \<noteq> JEUX_NACK_PKT)"

text \<open>
  \<open>sends_rel s0 s\<close>: from \<open>s0\<close> to \<open>s\<close> the record of sends has only grown, by notifications,
  and no client has changed its file descriptor. \<open>replied s0 c s\<close>: it has grown by
  notifications and then one reply, the last packet, addressed to the descriptor of \<open>c\<close>,
  unless the execution has stopped or an allocation has failed.
\<close>

definition sends_rel :: "server_state \<Rightarrow> server_state \<Rightarrow> bool" where
  "sends_rel s0 s =
     (length (sent s0) \<le> length (sent s) \<and> take (length (sent s0)) (sent s) = sent s0 \<and>
      filter is_reply (drop (length (sent s0)) (sent s)) = [] \<and>
      (\<forall>c. fd (clients s c) = fd (clients s0 c)))"

definition replied :: "server_state \<Rightarrow> nat \<Rightarrow> server_state \<Rightarrow> bool" where
  "replied s0 c s =
     (crashed s \<or> alloc_failed s \<or>
      (length (sent s0) < length (sent s) \<and> take (length (sent s0)) (sent s) = sent s0 \<and>
       filter is_reply (drop (length (sent s0)) (sent s)) = [last (sent s)] \<and>
       to_fd (last (sent s)) = fd (clients s0 c) \<and>
       (\<forall>c. fd (clients s c) = fd (clients s0 c))))"

text \<open>
  \<open>quiet s0 s\<close>: no result has been posted and no client has changed its login.
\<close>

definition quiet :: "server_state \<Rightarrow> server_state \<Rightarrow> bool" where
  "quiet s0 s = (posted s = posted s0 \<and>
     (\<forall>x. logged_in (clients s x) = logged_in (clients s0 x) \<and>
          c_player (clients s x) = c_player (clients s0 x)))"

text \<open>
  The shape of the invitations of a state: every allocated invitation joins two different
  clients, one playing first and one second; in every client's list the IDs are distinct
  and the nodes point to allocated invitations.
\<close>

definition roles_ok :: "INVITATION \<Rightarrow> bool" where
  "roles_ok iv = ((source_role iv = FIRST_PLAYER_ROLE \<and> target_role iv = SECOND_PLAYER_ROLE) \<or>
                  (source_role iv = SECOND_PLAYER_ROLE \<and> target_role iv = FIRST_PLAYER_ROLE))"

definition wf_state :: "server_state \<Rightarrow> bool" where
  "wf_state s =
     ((\<forall>i. i < inv_next s \<longrightarrow> sender (invs s i) \<noteq> recipient (invs s i) \<and> roles_ok (invs s i)) \<and>
      (\<forall>c. distinct (map n_id (invitations_head (clients s c))) \<and>
           list_all (\<lambda>n. n_invitation n < inv_next s) (invitations_head (clients s c))))"


section \<open>Requests, replies and login\<close>


text \<open>The request types that need a login.\<close>

definition gated_type :: "8 word \<Rightarrow> bool" where
  "gated_type t = (t = JEUX_USERS_PKT \<or> t = JEUX_INVITE_PKT \<or>
     t = JEUX_REVOKE_PKT \<or> t = JEUX_ACCEPT_PKT \<or> t = JEUX_DECLINE_PKT \<or> t = JEUX_MOVE_PKT \<or>
     t = JEUX_RESIGN_PKT)"

text \<open>
  \<open>nacked c s s'\<close>: \<open>s'\<close> is \<open>s\<close> after one NACK to client \<open>c\<close> and nothing else; only the
  allocator's list, \<open>errno\<close> and the record of sends differ.
\<close>

definition nacked :: "nat \<Rightarrow> server_state \<Rightarrow> server_state \<Rightarrow> bool" where
  "nacked c s s' =
     (\<exists>a e r. s' = s\<lparr>alloc := a, errno := e,
                       sent := sent s @ [\<lparr>to_fd = fd (clients s c), pkt = make_packet JEUX_NACK_PKT 0,
                                          data = None, ret = r\<rparr>]\<rparr>)"

text \<open>\<open>same_login s0 s\<close>: no client has changed its \<open>logged_in\<close> flag or its player.\<close>

definition same_login :: "server_state \<Rightarrow> server_state \<Rightarrow> bool" where
  "same_login s0 s =
     (\<forall>x. logged_in (clients s x) = logged_in (clients s0 x) \<and>
          c_player (clients s x) = c_player (clients s0 x))"

text \<open>\<open>same_invitations s s'\<close>: no invitation was created and no list of handles changed.\<close>

definition same_invitations :: "server_state \<Rightarrow> server_state \<Rightarrow> bool" where
  "same_invitations s s' =
     (inv_next s' = inv_next s \<and> invs s' = invs s \<and>
      (\<forall>x. invitations_head (clients s' x) = invitations_head (clients s x)))"

text \<open>The string that describes the position of a new game.\<close>

definition init_str :: string where
  "init_str = game_unparse_state game_create"

section \<open>A session of two clients\<close>

text \<open>
  A run used to exercise the theorems: two connections are accepted (descriptors 3 and 4),
  the first logs in as alice and the second as bob, alice invites bob to play second, and
  bob accepts. No allocation fails in it.
\<close>

definition hdr :: "8 word \<Rightarrow> 8 word \<Rightarrow> 8 word \<Rightarrow> 16 word \<Rightarrow> JEUX_PACKET_HEADER" where
  "hdr t i r z = \<lparr>h_type = t, h_id = i, h_role = r, h_size = z\<rparr>"

definition st1 :: server_state where
  "st1 = snd (service_start 3 init_state)"

definition st2 :: server_state where
  "st2 = snd (service_start 4 st1)"

definition st_alice :: server_state where
  "st_alice = snd (service_frame 0 (hdr JEUX_LOGIN_PKT 0 0 5) (Some ''alice'') (0, st2))"

definition st_login :: server_state where
  "st_login = snd (service_frame 1 (hdr JEUX_LOGIN_PKT 0 0 3) (Some ''bob'') (0, st_alice))"

definition st_invited :: server_state where
  "st_invited = snd (service_frame 0 (hdr JEUX_INVITE_PKT 0 2 3) (Some ''bob'') (1, st_login))"

definition st_accepted :: server_state where
  "st_accepted = snd (service_frame 1 (hdr JEUX_ACCEPT_PKT 0 0 0) None (1, st_invited))"

text \<open>
  Eight moves that fill the board but for square 9 without a line of three, the position
  they lead to, the position after X takes square 9, and the state of the session once
  the eight moves have been played.
\<close>

definition moves8 :: "GAME_MOVE list" where
  "moves8 = [\<lparr>player = 1, square = 1\<rparr>, \<lparr>player = 2, square = 2\<rparr>, \<lparr>player = 1, square = 3\<rparr>,
             \<lparr>player = 2, square = 5\<rparr>, \<lparr>player = 1, square = 4\<rparr>, \<lparr>player = 2, square = 6\<rparr>,
             \<lparr>player = 1, square = 8\<rparr>, \<lparr>player = 2, square = 7\<rparr>]"

definition game8 :: GAME where
  "game8 = \<lparr>turn_X = 1, num_turns = 8, board = [1, 2, 1, 1, 2, 2, 2, 1, 0], winner = NULL_ROLE,
            terminated = 0, g_ref_count = 1\<rparr>"

definition game9 :: GAME where
  "game9 = \<lparr>turn_X = 0, num_turns = 9, board = [1, 2, 1, 1, 2, 2, 2, 1, 1], winner = NULL_ROLE,
            terminated = 1, g_ref_count = 1\<rparr>"

definition st_play8 :: server_state where
  "st_play8 = st_accepted\<lparr>invs := (invs st_accepted)(0 := (invs st_accepted 0)\<lparr>game := Some game8\<rparr>)\<rparr>"

text \<open>
  The state after the two logins when the allocator is about to serve three requests (the
  invitation, its mutex, the node for the source's list) and then to fail.
\<close>

definition st_nomem :: server_state where
  "st_nomem = st_login\<lparr>alloc := [True, True, True, False]\<rparr>"

text \<open>An OPEN invitation at address 0 of the initial state, for the allocator set as given.\<close>

definition st_open :: "bool list \<Rightarrow> server_state" where
  "st_open a = init_state\<lparr>invs := (invs init_state)(0 :=
       \<lparr>i_ref_count = 3, sender = 0, recipient = 1, source_role = FIRST_PLAYER_ROLE,
        target_role = SECOND_PLAYER_ROLE, game = None, state = INV_OPEN_STATE\<rparr>),
     inv_next := 1, alloc := a\<rparr>"

section \<open>Properties of the game engine\<close>







section \<open>Properties of invitations\<close>

lemma malloc_cases:
  "malloc s = (ok, s1) \<Longrightarrow>
     (ok \<and> alloc_failed s1 = alloc_failed s \<or> \<not> ok \<and> alloc_failed s1) \<and>
     invs s1 = invs s \<and> (alloc s = [] \<longrightarrow> ok \<and> s1 = s)"
  by (auto simp: malloc_def split: list.splits)

lemma mutex_cases:
  "pthread_mutex_init s = (ok, s1) \<Longrightarrow>
     (ok \<and> alloc_failed s1 = alloc_failed s \<or> \<not> ok \<and> alloc_failed s1) \<and>
     invs s1 = invs s \<and> (alloc s = [] \<longrightarrow> ok \<and> s1 = s)"
  by (auto simp: pthread_mutex_init_def split: list.splits)

lemma game_create_call_cases:
  assumes "game_create_call s = (g, s1)"
  shows "(g = Some game_create \<or> g = None \<and> alloc_failed s1) \<and> invs s1 = invs s \<and>
         (alloc s = [] \<longrightarrow> g = Some game_create \<and> s1 = s)"
proof -
  obtain ok sa where m: "malloc s = (ok, sa)" by (rule prod.exhaust)
  obtain ok2 sb where x: "pthread_mutex_init sa = (ok2, sb)" by (rule prod.exhaust)
  show ?thesis
    using assms malloc_cases [OF m] mutex_cases [OF x]
    by (auto simp: game_create_call_def m x split: if_splits)
qed

lemma inv_accept_cases:
  assumes "inv_accept ip s = (r, s')"
  shows "(\<forall>j. j \<noteq> ip \<longrightarrow> invs s' j = invs s j) \<and>
         (state (invs s ip) \<noteq> INV_OPEN_STATE \<longrightarrow> r = - 1 \<and> s' = s) \<and>
         (state (invs s ip) = INV_OPEN_STATE \<longrightarrow>
            (r = 0 \<and> invs s' ip = (invs s ip)\<lparr>state := INV_ACCEPTED_STATE, game := Some game_create\<rparr> \<or>
             r = - 1 \<and> invs s' ip = (invs s ip)\<lparr>state := INV_ACCEPTED_STATE, game := None\<rparr> \<and>
               alloc_failed s') \<and>
            (alloc s = [] \<longrightarrow> r = 0))"
proof -
  let ?s1 = "s\<lparr>invs := (invs s)(ip := (invs s ip)\<lparr>state := INV_ACCEPTED_STATE\<rparr>)\<rparr>"
  obtain g s2 where g: "game_create_call ?s1 = (g, s2)" by (rule prod.exhaust)
  show ?thesis
    using assms game_create_call_cases [OF g]
    by (auto simp: inv_accept_def Let_def g split: if_splits)
qed

text \<open>
  C3. The state of an invitation only moves OPEN to ACCEPTED (by \<open>inv_accept\<close>) and OPEN or
  ACCEPTED to CLOSED (by \<open>inv_close\<close>), and \<open>inv_accept\<close> touches no other invitation.
  \<open>inv_accept\<close> on an invitation that is not OPEN returns -1 and changes nothing. On an OPEN
  invitation it moves the state to ACCEPTED and then either returns 0 with a new game in
  the invitation, or returns -1 with no game because the game could not be created (an
  allocation has failed); it returns 0 when no allocation fails. \<open>inv_close\<close> on an
  invitation that is neither OPEN nor ACCEPTED returns -1 and changes nothing, and so does
  every failing \<open>inv_close\<close>; and \<open>inv_close\<close> with \<open>NULL_ROLE\<close> succeeds only when the
  invitation has no game.
\<close>

theorem inv_state_transitions:
  "(state (invs (snd (inv_accept ip s)) ip) \<noteq> state (invs s ip) \<longrightarrow>
       state (invs s ip) = INV_OPEN_STATE \<and>
       state (invs (snd (inv_accept ip s)) ip) = INV_ACCEPTED_STATE) \<and>
   (\<forall>j. j \<noteq> ip \<longrightarrow> invs (snd (inv_accept ip s)) j = invs s j) \<and>
   (state (snd (inv_close iv role)) \<noteq> state iv \<longrightarrow>
       (state iv = INV_OPEN_STATE \<or> state iv = INV_ACCEPTED_STATE) \<and>
       state (snd (inv_close iv role)) = INV_CLOSED_STATE) \<and>
   (state (invs s ip) \<noteq> INV_OPEN_STATE \<longrightarrow> inv_accept ip s = (- 1, s)) \<and>
   (state (invs s ip) = INV_OPEN_STATE \<longrightarrow>
       state (invs (snd (inv_accept ip s)) ip) = INV_ACCEPTED_STATE \<and>
       (fst (inv_accept ip s) = 0 \<and>
          game (invs (snd (inv_accept ip s)) ip) = Some game_create \<or>
        fst (inv_accept ip s) = - 1 \<and>
          game (invs (snd (inv_accept ip s)) ip) = None \<and> alloc_failed (snd (inv_accept ip s))) \<and>
       (alloc s = [] \<longrightarrow> fst (inv_accept ip s) = 0)) \<and>
   (state iv \<noteq> INV_OPEN_STATE \<and> state iv \<noteq> INV_ACCEPTED_STATE \<longrightarrow> inv_close iv role = (- 1, iv)) \<and>
   (fst (inv_close iv role) = 0 \<longrightarrow> state (snd (inv_close iv role)) = INV_CLOSED_STATE) \<and>
   (fst (inv_close iv role) \<noteq> 0 \<longrightarrow> inv_close iv role = (- 1, iv)) \<and>
   (fst (inv_close iv NULL_ROLE) = 0 \<longrightarrow> game iv = None)"
proof -
  have a: "inv_accept ip s = (fst (inv_accept ip s), snd (inv_accept ip s))"
    by simp
  note c = inv_accept_cases [OF a]
  have acc: "(state (invs (snd (inv_accept ip s)) ip) \<noteq> state (invs s ip) \<longrightarrow>
       state (invs s ip) = INV_OPEN_STATE \<and>
       state (invs (snd (inv_accept ip s)) ip) = INV_ACCEPTED_STATE) \<and>
   (\<forall>j. j \<noteq> ip \<longrightarrow> invs (snd (inv_accept ip s)) j = invs s j) \<and>
   (state (invs s ip) \<noteq> INV_OPEN_STATE \<longrightarrow> inv_accept ip s = (- 1, s)) \<and>
   (state (invs s ip) = INV_OPEN_STATE \<longrightarrow>
       state (invs (snd (inv_accept ip s)) ip) = INV_ACCEPTED_STATE \<and>
       (fst (inv_accept ip s) = 0 \<and>
          game (invs (snd (inv_accept ip s)) ip) = Some game_create \<or>
        fst (inv_accept ip s) = - 1 \<and>
          game (invs (snd (inv_accept ip s)) ip) = None \<and> alloc_failed (snd (inv_accept ip s))) \<and>
       (alloc s = [] \<longrightarrow> fst (inv_accept ip s) = 0))"
    using c by (cases "state (invs s ip) = INV_OPEN_STATE") (auto simp: prod_eq_iff)
  have cl: "(state (snd (inv_close iv role)) \<noteq> state iv \<longrightarrow>
       (state iv = INV_OPEN_STATE \<or> state iv = INV_ACCEPTED_STATE) \<and>
       state (snd (inv_close iv role)) = INV_CLOSED_STATE) \<and>
   (state iv \<noteq> INV_OPEN_STATE \<and> state iv \<noteq> INV_ACCEPTED_STATE \<longrightarrow> inv_close iv role = (- 1, iv)) \<and>
   (fst (inv_close iv role) = 0 \<longrightarrow> state (snd (inv_close iv role)) = INV_CLOSED_STATE) \<and>
   (fst (inv_close iv role) \<noteq> 0 \<longrightarrow> inv_close iv role = (- 1, iv)) \<and>
   (fst (inv_close iv NULL_ROLE) = 0 \<longrightarrow> game iv = None)"
    by (auto simp: inv_close_def Let_def split: option.splits)
  show ?thesis
    using acc cl by blast
qed

lemma st_open_facts:
  "invs (st_open a) 0 = \<lparr>i_ref_count = 3, sender = 0, recipient = 1, source_role = FIRST_PLAYER_ROLE,
        target_role = SECOND_PLAYER_ROLE, game = None, state = INV_OPEN_STATE\<rparr>"
  "alloc (st_open a) = a" "\<not> alloc_failed (st_open a)"
  by (simp_all add: st_open_def init_state_def)

theorem inv_state_transitions_witness:
  "fst (inv_accept 0 (st_open [])) = 0 \<and>
   state (invs (snd (inv_accept 0 (st_open []))) 0) = INV_ACCEPTED_STATE \<and>
   game (invs (snd (inv_accept 0 (st_open []))) 0) = Some game_create \<and>
   fst (inv_accept 0 (st_open [False])) = - 1 \<and>
   state (invs (snd (inv_accept 0 (st_open [False]))) 0) = INV_ACCEPTED_STATE \<and>
   game (invs (snd (inv_accept 0 (st_open [False]))) 0) = None \<and>
   inv_accept 0 (snd (inv_accept 0 (st_open []))) = (- 1, snd (inv_accept 0 (st_open []))) \<and>
   fst (inv_close \<lparr>i_ref_count = 3, sender = 0, recipient = 1, source_role = FIRST_PLAYER_ROLE,
               target_role = SECOND_PLAYER_ROLE, game = Some game_create, state = INV_ACCEPTED_STATE\<rparr>
          NULL_ROLE) = - 1 \<and>
   state (snd (inv_close \<lparr>i_ref_count = 3, sender = 0, recipient = 1, source_role = FIRST_PLAYER_ROLE,
               target_role = SECOND_PLAYER_ROLE, game = Some game_create, state = INV_ACCEPTED_STATE\<rparr>
          FIRST_PLAYER_ROLE)) = INV_CLOSED_STATE \<and>
   inv_close \<lparr>i_ref_count = 3, sender = 0, recipient = 1, source_role = FIRST_PLAYER_ROLE,
               target_role = SECOND_PLAYER_ROLE, game = None, state = INV_CLOSED_STATE\<rparr> NULL_ROLE
     = (- 1, \<lparr>i_ref_count = 3, sender = 0, recipient = 1, source_role = FIRST_PLAYER_ROLE,
               target_role = SECOND_PLAYER_ROLE, game = None, state = INV_CLOSED_STATE\<rparr>)"
proof -
  have f: "fst (inv_accept 0 (st_open [False])) = - 1"
    by (simp add: inv_accept_def game_create_call_def malloc_def st_open_facts Let_def)
  note a = inv_state_transitions [of 0 "st_open []"
             "\<lparr>i_ref_count = 3, sender = 0, recipient = 1, source_role = FIRST_PLAYER_ROLE,
               target_role = SECOND_PLAYER_ROLE, game = Some game_create, state = INV_ACCEPTED_STATE\<rparr>"
             FIRST_PLAYER_ROLE]
  note b = inv_state_transitions [of 0 "st_open [False]"
             "\<lparr>i_ref_count = 3, sender = 0, recipient = 1, source_role = FIRST_PLAYER_ROLE,
               target_role = SECOND_PLAYER_ROLE, game = None, state = INV_CLOSED_STATE\<rparr>" NULL_ROLE]
  note c = inv_state_transitions [of 0 "snd (inv_accept 0 (st_open []))"
             "\<lparr>i_ref_count = 3, sender = 0, recipient = 1, source_role = FIRST_PLAYER_ROLE,
               target_role = SECOND_PLAYER_ROLE, game = None, state = INV_CLOSED_STATE\<rparr>" NULL_ROLE]
  have a1: "fst (inv_accept 0 (st_open [])) = 0"
    using a by (simp add: st_open_facts)
  have a2: "state (invs (snd (inv_accept 0 (st_open []))) 0) = INV_ACCEPTED_STATE"
    using a by (simp add: st_open_facts)
  show ?thesis
    using a b c a1 a2 f
    by (simp add: st_open_facts inv_close_def game_resign_def game_create_def)
qed

lemma win_upd [simp]:
  "win (g\<lparr>turn_X := a\<rparr>) p = win g p" "win (g\<lparr>winner := b\<rparr>) p = win g p"
  "win (g\<lparr>terminated := c\<rparr>) p = win g p" "win (g\<lparr>num_turns := d\<rparr>) p = win g p"
  by (simp_all add: win_def)


lemma game_apply_move_alt:
  "game_apply_move g m = (if move_illegal g m then (- 1, g) else (0, move_result_game g m))"
  unfolding game_apply_move_def move_illegal_def move_result_game_def Let_def
  by (rule refl)

lemma apply_move_ok:
  assumes "game_apply_move g m = (0, g')"
  shows "terminated g = 0"
    and "num_turns g' = num_turns g + 1"
    and "win g' 1 = 0 \<Longrightarrow> win g' 2 = 0 \<Longrightarrow> winner g' = winner g"
    and "num_turns g' \<ge> 9 \<Longrightarrow> terminated g' = 1"
    and "terminated g' = 0 \<Longrightarrow> winner g' = winner g"
proof -
  have legal: "\<not> move_illegal g m" and g': "g' = move_result_game g m"
    using assms by (auto simp: game_apply_move_alt split: if_splits)
  define g2 where "g2 = g\<lparr>board := (board g)[nat (square m - 1) := player m],
                          turn_X := (if turn_X g \<noteq> 0 then 0 else 1)\<rparr>"
  have w: "win g' p = win g2 p" for p
    by (simp add: g' move_result_game_def Let_def g2_def)
  show "terminated g = 0"
    using legal by (simp add: move_illegal_def)
  then have t2: "terminated g2 = 0" by (simp add: g2_def)
  show "num_turns g' = num_turns g + 1"
    by (simp add: g' move_result_game_def Let_def)
  show "winner g' = winner g" if "win g' 1 = 0" "win g' 2 = 0"
    using that unfolding w by (simp add: g' move_result_game_def Let_def g2_def)
  show "terminated g' = 1" if "num_turns g' \<ge> 9"
    using that by (simp add: g' move_result_game_def Let_def split: if_splits)
  show "winner g' = winner g" if "terminated g' = 0"
    using that \<open>terminated g = 0\<close> by (simp add: g' move_result_game_def Let_def split: if_splits)
qed

lemma apply_moves_append:
  "apply_moves g (ms @ [m]) =
     (case apply_moves g ms of None \<Rightarrow> None
      | Some g1 \<Rightarrow> (case game_apply_move g1 m of (r, g') \<Rightarrow> if r = 0 then Some g' else None))"
  by (induction ms arbitrary: g) (auto split: prod.splits option.splits)

lemma apply_moves_inv:
  "apply_moves g ms = Some g' \<Longrightarrow>
     num_turns g' = num_turns g + int (length ms) \<and>
     ((terminated g = 0 \<longrightarrow> winner g = NULL_ROLE) \<longrightarrow> (terminated g' = 0 \<longrightarrow> winner g' = NULL_ROLE))"
proof (induction ms arbitrary: g)
  case Nil
  then show ?case by simp
next
  case (Cons m ms)
  then obtain g1 where g1: "game_apply_move g m = (0, g1)" and rest: "apply_moves g1 ms = Some g'"
    by (auto split: prod.splits if_splits)
  from Cons.IH [OF rest] apply_move_ok [OF g1] show ?case
    by auto
qed

lemma nine_moves_draw:
  assumes "apply_moves game_create ms8 = Some g" "length ms8 = 8"
      and "game_apply_move g m = (0, g')" "win g' 1 = 0" "win g' 2 = 0"
  shows "terminated g' = 1 \<and> winner g' = NULL_ROLE \<and> game_is_over g' = 1 \<and>
         game_get_winner g' = NULL_ROLE \<and> move_result (game_get_winner g') = 0"
proof -
  from apply_moves_inv [OF assms(1)] assms(2)
  have n8: "num_turns g = 8" and inv8: "terminated g = 0 \<longrightarrow> winner g = NULL_ROLE"
    by (auto simp: game_create_def)
  from apply_move_ok [OF assms(3)] n8 inv8 assms(4,5)
  have "terminated g' = 1" "winner g' = NULL_ROLE"
    by auto
  then show ?thesis
    by (simp add: game_is_over_def game_get_winner_def move_result_def c_trunc_def)
qed



section \<open>What the operations leave alone\<close>

lemma notif_types [simp]:
  "notif_type JEUX_INVITED_PKT" "notif_type JEUX_REVOKED_PKT" "notif_type JEUX_ACCEPTED_PKT"
  "notif_type JEUX_DECLINED_PKT" "notif_type JEUX_MOVED_PKT" "notif_type JEUX_RESIGNED_PKT"
  "notif_type JEUX_ENDED_PKT"
  by (simp_all add: notif_type_def JEUX_ACK_PKT_def JEUX_NACK_PKT_def
     JEUX_INVITED_PKT_def JEUX_REVOKED_PKT_def JEUX_ACCEPTED_PKT_def JEUX_DECLINED_PKT_def JEUX_MOVED_PKT_def
     JEUX_RESIGNED_PKT_def JEUX_ENDED_PKT_def)

lemma mk_type [simp]: "h_type (make_packet t n) = t"
  by (simp add: make_packet_def)


lemma sends_rel_same:
  "sent s' = sent s \<Longrightarrow> (\<And>c. fd (clients s' c) = fd (clients s c)) \<Longrightarrow> sends_rel s0 s \<Longrightarrow> sends_rel s0 s'"
  by (simp add: sends_rel_def)

lemma sr_invs_upd [simp]: "sends_rel s0 (s\<lparr>invs := x\<rparr>) = sends_rel s0 s"
  by (simp add: sends_rel_def)

lemma sr_crashed_upd [simp]: "sends_rel s0 (s\<lparr>crashed := x\<rparr>) = sends_rel s0 s"
  by (simp add: sends_rel_def)

lemma sr_preg_upd [simp]: "sends_rel s0 (s\<lparr>preg := x\<rparr>) = sends_rel s0 s"
  by (simp add: sends_rel_def)

lemma sr_creg_upd [simp]: "sends_rel s0 (s\<lparr>creg := x\<rparr>) = sends_rel s0 s"
  by (simp add: sends_rel_def)

lemma sr_malloc: "malloc s = (ok, s') \<Longrightarrow> sends_rel s0 s \<Longrightarrow> sends_rel s0 s'"
  by (auto simp: malloc_def sends_rel_def split: list.splits)

lemma sr_mutex: "pthread_mutex_init s = (ok, s') \<Longrightarrow> sends_rel s0 s \<Longrightarrow> sends_rel s0 s'"
  by (auto simp: pthread_mutex_init_def sends_rel_def split: list.splits)

lemma sr_Malloc: "sends_rel s0 s \<Longrightarrow> sends_rel s0 (Malloc s)"
  by (auto simp: Malloc_def split: prod.splits elim: sr_malloc)

lemma sr_recv: "sends_rel s0 s \<Longrightarrow> sends_rel s0 (proto_recv_packet h s)"
  by (auto simp: proto_recv_packet_def split: prod.splits elim: sr_malloc)

lemma sr_player_ref: "sends_rel s0 s \<Longrightarrow> sends_rel s0 (player_ref p s)"
  by (erule sends_rel_same [rotated 2]) (auto simp: player_ref_def split: option.splits)

lemma sr_player_unref: "sends_rel s0 s \<Longrightarrow> sends_rel s0 (player_unref p s)"
  by (erule sends_rel_same [rotated 2]) (auto simp: player_unref_def split: option.splits)

lemma sr_client_ref: "sends_rel s0 s \<Longrightarrow> sends_rel s0 (client_ref c s)"
  by (erule sends_rel_same [rotated 2]) (auto simp: client_ref_def)

lemma sr_client_unref: "sends_rel s0 s \<Longrightarrow> sends_rel s0 (client_unref c s)"
  by (erule sends_rel_same [rotated 2])
     (auto simp: client_unref_def player_unref_def Let_def split: option.splits)

lemma sr_inv_ref: "sends_rel s0 s \<Longrightarrow> sends_rel s0 (inv_ref ip s)"
  by (erule sends_rel_same [rotated 2]) (auto simp: inv_ref_def)

lemma sr_inv_unref: "sends_rel s0 s \<Longrightarrow> sends_rel s0 (inv_unref ip s)"
  unfolding inv_unref_def Let_def
  by (auto intro!: sr_client_unref)

lemma sr_send:
  "client_send_packet c h d s = (r, s') \<Longrightarrow> notif_type (h_type h) \<Longrightarrow>
   sends_rel s0 s \<Longrightarrow> sends_rel s0 s'"
  by (auto simp: sends_rel_def client_send_packet_def proto_send_packet_def Let_def is_reply_def notif_type_def
           split: prod.splits sock_status.splits if_splits)

lemma sr_make_packet:
  "make_packet_call t n s = (mk, s') \<Longrightarrow> sends_rel s0 s \<Longrightarrow> sends_rel s0 s'"
  by (auto simp: make_packet_call_def split: prod.splits if_splits elim: sr_malloc)

lemma mp_Some:
  "make_packet_call t n s = (Some h, s') \<Longrightarrow> h = make_packet t n \<and> malloc s = (True, s')"
  by (auto simp: make_packet_call_def split: prod.splits if_splits)

lemma mp_None:
  "make_packet_call t n s = (None, s') \<Longrightarrow> malloc s = (False, s')"
  by (auto simp: make_packet_call_def split: prod.splits if_splits)

lemma sr_notification:
  "send_notification c t n i r d s = (res, s') \<Longrightarrow> notif_type t \<Longrightarrow>
   sends_rel s0 s \<Longrightarrow> sends_rel s0 s'"
  unfolding send_notification_def
  by (auto split: prod.splits option.splits dest!: mp_Some mp_None elim!: sr_malloc sr_send)

lemma sr_game_create:
  "game_create_call s = (g, s') \<Longrightarrow> sends_rel s0 s \<Longrightarrow> sends_rel s0 s'"
  unfolding game_create_call_def
  by (auto split: prod.splits if_splits elim!: sr_malloc sr_mutex)

lemma sr_unparse:
  "game_unparse_state_call g s = (st, s') \<Longrightarrow> sends_rel s0 s \<Longrightarrow> sends_rel s0 s'"
  unfolding game_unparse_state_call_def
  by (auto split: prod.splits if_splits option.splits elim!: sr_malloc)

lemma sr_parse:
  "game_parse_move_call g role str s = (m, s') \<Longrightarrow> sends_rel s0 s \<Longrightarrow> sends_rel s0 s'"
  unfolding game_parse_move_call_def
  by (auto split: prod.splits if_splits option.splits elim!: sr_malloc)

lemma sr_apply:
  "game_apply_move_call g m s = (r, g', s') \<Longrightarrow> sends_rel s0 s \<Longrightarrow> sends_rel s0 s'"
  unfolding game_apply_move_call_def
  by (auto split: prod.splits if_splits elim!: sr_malloc)

lemma sr_inv_accept:
  "inv_accept ip s = (r, s') \<Longrightarrow> sends_rel s0 s \<Longrightarrow> sends_rel s0 s'"
  unfolding inv_accept_def Let_def
  by (auto split: prod.splits if_splits elim!: sr_game_create)

lemma sr_remove:
  "client_remove_invitation c ip s = (r, s') \<Longrightarrow> sends_rel s0 s \<Longrightarrow> sends_rel s0 s'"
  unfolding client_remove_invitation_def Let_def
  by (auto split: option.splits intro!: sr_inv_unref elim!: sends_rel_same [rotated 2])

lemma sr_list_upd:
  "sends_rel s0 s \<Longrightarrow>
   sends_rel s0 (s\<lparr>clients := (clients s)(c := (clients s c)\<lparr>invitations_head := x\<rparr>)\<rparr>)"
  by (simp add: sends_rel_def)

lemma sr_add:
  "client_add_invitation c ip s = (r, s') \<Longrightarrow> sends_rel s0 s \<Longrightarrow> sends_rel s0 s'"
  unfolding client_add_invitation_def Let_def
  by (auto split: prod.splits if_splits intro!: sr_inv_ref sr_list_upd elim!: sr_malloc)

lemma sr_inv_create:
  "inv_create a b sr tr s = (ip, s') \<Longrightarrow> sends_rel s0 s \<Longrightarrow> sends_rel s0 s'"
  unfolding inv_create_def Let_def
  by (auto split: prod.splits if_splits simp: sends_rel_def client_ref_def
           dest!: sr_malloc [where ?s0.0 = s0] sr_mutex [where ?s0.0 = s0])

lemma sr_post: "sends_rel s0 s \<Longrightarrow> sends_rel s0 (player_post_result a b r s)"
  by (erule sends_rel_same [rotated 2])
     (auto simp: player_post_result_def Let_def split: option.splits prod.splits)

lemmas sr_intros = sr_player_ref sr_player_unref sr_client_ref sr_client_unref sr_inv_ref sr_inv_unref
  sr_post sr_Malloc
lemmas sr_elims = sr_send sr_notification sr_remove sr_add sr_inv_create sr_malloc sr_mutex
  sr_make_packet sr_unparse sr_parse sr_apply sr_inv_accept


lemma sr_revoke:
  "client_revoke_invitation c i s = (r, s') \<Longrightarrow> sends_rel s0 s \<Longrightarrow> sends_rel s0 s'"
  unfolding client_revoke_invitation_def Let_def
  by (auto split: option.splits prod.splits if_splits intro!: sr_intros elim!: sr_elims)

lemma sr_decline:
  "client_decline_invitation c i s = (r, s') \<Longrightarrow> sends_rel s0 s \<Longrightarrow> sends_rel s0 s'"
  unfolding client_decline_invitation_def Let_def
  by (auto split: option.splits prod.splits if_splits intro!: sr_intros elim!: sr_elims)


lemma sr_resign:
  "client_resign_game c i s = (r, s') \<Longrightarrow> sends_rel s0 s \<Longrightarrow> sends_rel s0 s'"
  unfolding client_resign_game_def Let_def
  by (auto split: option.splits prod.splits if_splits intro!: sr_intros elim!: sr_elims)


lemma sr_fold:
  "(\<And>x s. sends_rel s0 s \<Longrightarrow> sends_rel s0 (f x s)) \<Longrightarrow> sends_rel s0 s \<Longrightarrow> sends_rel s0 (fold f xs s)"
  by (induction xs arbitrary: s) auto




lemma sr_players_upd [simp]: "sends_rel s0 (s\<lparr>players := x\<rparr>) = sends_rel s0 s"
  by (simp add: sends_rel_def)

lemma sr_player_next_upd [simp]: "sends_rel s0 (s\<lparr>player_next := x\<rparr>) = sends_rel s0 s"
  by (simp add: sends_rel_def)






lemma sr_logout_node: "sends_rel s0 s \<Longrightarrow> sends_rel s0 (logout_node c nd s)"
  unfolding logout_node_def
  by (auto simp: split_pairs intro: sr_resign [OF surjective_pairing] sr_revoke [OF surjective_pairing] sr_decline [OF surjective_pairing])

lemma sr_logout:
  "client_logout c s = (r, s') \<Longrightarrow> sends_rel s0 s \<Longrightarrow> sends_rel s0 s'"
  unfolding client_logout_def Let_def
  by (auto split: if_splits intro!: sr_fold sr_logout_node sr_intros)



lemma replied_crash [simp]: "replied s0 c (s\<lparr>crashed := True\<rparr>)"
  by (simp add: replied_def)





lemma not_notif_ack [simp]: "\<not> notif_type JEUX_ACK_PKT" "\<not> notif_type JEUX_NACK_PKT"
  by (simp_all add: notif_type_def)



lemma construct_type [simp]: "h_type (construct_packet t n) = t"
  by (simp add: construct_packet_def)











lemma quiet_refl [simp]: "quiet s s"
  by (simp add: quiet_def)

lemma quiet_trans: "quiet s0 s \<Longrightarrow> quiet s s' \<Longrightarrow> quiet s0 s'"
  by (simp add: quiet_def)

lemma quiet_crashed_upd [simp]: "quiet s0 (s\<lparr>crashed := x\<rparr>) = quiet s0 s"
  by (simp add: quiet_def)

lemma quiet_malloc: "malloc s = (ok, s') \<Longrightarrow> quiet s s'"
  by (auto simp: malloc_def quiet_def split: list.splits)

lemma quiet_mutex: "pthread_mutex_init s = (ok, s') \<Longrightarrow> quiet s s'"
  by (auto simp: pthread_mutex_init_def quiet_def split: list.splits)

lemma quiet_Malloc: "quiet s (Malloc s)"
  by (auto simp: Malloc_def split: prod.splits dest: quiet_malloc)

lemma quiet_player_ref: "quiet s (player_ref p s)"
  by (auto simp: quiet_def player_ref_def split: option.splits)

lemma quiet_player_unref: "quiet s (player_unref p s)"
  by (auto simp: quiet_def player_unref_def split: option.splits)

lemma quiet_client_unref: "quiet s (client_unref c s)"
  by (auto simp: quiet_def client_unref_def player_unref_def Let_def split: option.splits)

lemma quiet_inv_unref: "quiet s (inv_unref ip s)"
  by (auto simp: quiet_def inv_unref_def client_unref_def player_unref_def Let_def split: option.splits)

lemma quiet_send: "client_send_packet c h d s = (r, s') \<Longrightarrow> quiet s s'"
  by (auto simp: quiet_def client_send_packet_def proto_send_packet_def Let_def
           split: prod.splits sock_status.splits if_splits)

lemma quiet_make_packet: "make_packet_call t n s = (mk, s') \<Longrightarrow> quiet s s'"
  by (auto simp: make_packet_call_def split: prod.splits if_splits dest: quiet_malloc)

lemma quiet_notification: "send_notification c t n i r d s = (res, s') \<Longrightarrow> quiet s s'"
  unfolding send_notification_def
  by (auto split: prod.splits option.splits dest!: quiet_make_packet quiet_send simp: quiet_def)

lemma quiet_unparse: "game_unparse_state_call g s = (st, s') \<Longrightarrow> quiet s s'"
  unfolding game_unparse_state_call_def
  by (auto split: prod.splits option.splits if_splits dest!: quiet_malloc)

lemma quiet_parse: "game_parse_move_call g role str s = (m, s') \<Longrightarrow> quiet s s'"
  unfolding game_parse_move_call_def
  by (auto split: prod.splits option.splits if_splits dest!: quiet_malloc)

lemma quiet_apply: "game_apply_move_call g m s = (r, g', s') \<Longrightarrow> quiet s s'"
  unfolding game_apply_move_call_def
  by (auto split: prod.splits if_splits dest!: quiet_malloc simp: quiet_def)

lemma quiet_remove: "client_remove_invitation c ip s = (r, s') \<Longrightarrow> quiet s s'"
  using quiet_inv_unref
  by (auto simp: quiet_def client_remove_invitation_def Let_def split: option.splits)

lemma quiet_nack: "quiet s (snd (client_send_nack c s))"
  by (auto simp: client_send_nack_def split: prod.splits option.splits
           dest!: quiet_send quiet_make_packet simp: quiet_def)

lemma quiet_ack: "quiet s (snd (client_send_ack c d n s))"
  by (auto simp: client_send_ack_def split: prod.splits option.splits
           dest!: quiet_send quiet_make_packet simp: quiet_def)

lemma posted_post:
  "posted (player_post_result a b r s) = posted s @ [\<lparr>player1 = a, player2 = b, outcome = r\<rparr>]"
  by (auto simp: player_post_result_def Let_def split: option.splits prod.splits)

lemma result_scores_draw: "result_scores 0 = Some (1 / 2, 1 / 2)"
  by (simp add: result_scores_def)

section \<open>The shape of reachable states\<close>

lemma wf_same:
  "wf_state s \<Longrightarrow> inv_next s' = inv_next s \<Longrightarrow>
   (\<And>i. sender (invs s' i) = sender (invs s i) \<and> recipient (invs s' i) = recipient (invs s i) \<and>
         source_role (invs s' i) = source_role (invs s i) \<and> target_role (invs s' i) = target_role (invs s i)) \<Longrightarrow>
   (\<And>c. invitations_head (clients s' c) = invitations_head (clients s c)) \<Longrightarrow> wf_state s'"
  by (simp add: wf_state_def roles_ok_def)

lemma wf_player_ref: "wf_state s \<Longrightarrow> wf_state (player_ref p s)"
  by (erule wf_same) (auto simp: player_ref_def split: option.splits)

lemma wf_player_unref: "wf_state s \<Longrightarrow> wf_state (player_unref p s)"
  by (erule wf_same) (auto simp: player_unref_def split: option.splits)

lemma wf_client_ref: "wf_state s \<Longrightarrow> wf_state (client_ref c s)"
  by (erule wf_same) (auto simp: client_ref_def)

lemma wf_client_unref: "wf_state s \<Longrightarrow> wf_state (client_unref c s)"
  by (erule wf_same) (auto simp: client_unref_def player_unref_def Let_def split: option.splits)

lemma wf_inv_ref: "wf_state s \<Longrightarrow> wf_state (inv_ref ip s)"
  by (erule wf_same) (auto simp: inv_ref_def)

lemma wf_invs_upd:
  "wf_state s \<Longrightarrow> sender iv = sender (invs s ip) \<Longrightarrow> recipient iv = recipient (invs s ip) \<Longrightarrow>
   source_role iv = source_role (invs s ip) \<Longrightarrow> target_role iv = target_role (invs s ip) \<Longrightarrow>
   wf_state (s\<lparr>invs := (invs s)(ip := iv)\<rparr>)"
  by (erule wf_same) auto

lemma wf_crashed_upd [simp]: "wf_state (s\<lparr>crashed := x\<rparr>) = wf_state s"
  by (simp add: wf_state_def)

lemma wf_upds [simp]:
  "wf_state (s\<lparr>alloc := a\<rparr>) = wf_state s" "wf_state (s\<lparr>alloc_failed := b\<rparr>) = wf_state s"
  "wf_state (s\<lparr>preg := x\<rparr>) = wf_state s" "wf_state (s\<lparr>creg := y\<rparr>) = wf_state s"
  "wf_state (s\<lparr>players := z\<rparr>) = wf_state s" "wf_state (s\<lparr>player_next := n\<rparr>) = wf_state s"
  "wf_state (s\<lparr>sock := k\<rparr>) = wf_state s" "wf_state (s\<lparr>errno := e\<rparr>) = wf_state s"
  "wf_state (s\<lparr>sent := t\<rparr>) = wf_state s" "wf_state (s\<lparr>posted := u\<rparr>) = wf_state s"
  by (simp_all add: wf_state_def)

lemma wf_malloc: "malloc s = (ok, s') \<Longrightarrow> wf_state s \<Longrightarrow> wf_state s'"
  by (auto simp: malloc_def split: list.splits)

lemma wf_mutex: "pthread_mutex_init s = (ok, s') \<Longrightarrow> wf_state s \<Longrightarrow> wf_state s'"
  by (auto simp: pthread_mutex_init_def split: list.splits)

lemma wf_Malloc: "wf_state s \<Longrightarrow> wf_state (Malloc s)"
  by (auto simp: Malloc_def split: prod.splits elim: wf_malloc)

lemma wf_recv: "wf_state s \<Longrightarrow> wf_state (proto_recv_packet h s)"
  by (auto simp: proto_recv_packet_def split: prod.splits elim: wf_malloc)

lemma inv_next_malloc: "malloc s = (ok, s') \<Longrightarrow> inv_next s' = inv_next s"
  by (auto simp: malloc_def split: list.splits)

lemma inv_next_mutex: "pthread_mutex_init s = (ok, s') \<Longrightarrow> inv_next s' = inv_next s"
  by (auto simp: pthread_mutex_init_def split: list.splits)

lemma wf_inv_unref: "wf_state s \<Longrightarrow> wf_state (inv_unref ip s)"
  unfolding inv_unref_def Let_def
  by (auto intro!: wf_client_unref wf_invs_upd)

lemma wf_send:
  "client_send_packet c h d s = (r, s') \<Longrightarrow> wf_state s \<Longrightarrow> wf_state s'"
  by (auto simp: client_send_packet_def proto_send_packet_def Let_def
           split: prod.splits sock_status.splits if_splits)

lemma wf_make_packet: "make_packet_call t n s = (mk, s') \<Longrightarrow> wf_state s \<Longrightarrow> wf_state s'"
  by (auto simp: make_packet_call_def split: prod.splits if_splits elim: wf_malloc)

lemma wf_notification:
  "send_notification c t n i r d s = (res, s') \<Longrightarrow> wf_state s \<Longrightarrow> wf_state s'"
  unfolding send_notification_def
  by (auto split: prod.splits option.splits elim!: wf_make_packet wf_send)

lemma wf_game_create: "game_create_call s = (g, s') \<Longrightarrow> wf_state s \<Longrightarrow> wf_state s'"
  unfolding game_create_call_def
  by (auto split: prod.splits if_splits elim!: wf_malloc wf_mutex)

lemma wf_unparse: "game_unparse_state_call g s = (st, s') \<Longrightarrow> wf_state s \<Longrightarrow> wf_state s'"
  unfolding game_unparse_state_call_def
  by (auto split: prod.splits if_splits option.splits elim!: wf_malloc)

lemma wf_parse: "game_parse_move_call g role str s = (m, s') \<Longrightarrow> wf_state s \<Longrightarrow> wf_state s'"
  unfolding game_parse_move_call_def
  by (auto split: prod.splits if_splits option.splits elim!: wf_malloc)

lemma wf_apply: "game_apply_move_call g m s = (r, g', s') \<Longrightarrow> wf_state s \<Longrightarrow> wf_state s'"
  unfolding game_apply_move_call_def
  by (auto split: prod.splits if_splits elim!: wf_malloc)

lemma wf_state_upd:
  "wf_state s \<Longrightarrow> wf_state (s\<lparr>invs := (invs s)(ip := (invs s ip)\<lparr>state := x\<rparr>)\<rparr>)"
  by (erule wf_same) auto

lemma wf_game_upd:
  "wf_state s \<Longrightarrow> wf_state (s\<lparr>invs := (invs s)(ip := (invs s ip)\<lparr>game := x\<rparr>)\<rparr>)"
  by (erule wf_same) auto

lemma wf_inv_accept: "inv_accept ip s = (r, s') \<Longrightarrow> wf_state s \<Longrightarrow> wf_state s'"
  unfolding inv_accept_def Let_def
  by (auto split: prod.splits if_splits intro!: wf_game_upd dest!: wf_game_create [OF _ wf_state_upd])

lemma distinct_map_remove1: "distinct (map f xs) \<Longrightarrow> distinct (map f (remove1 x xs))"
  by (induction xs) (auto dest: notin_set_remove1 simp: image_iff)

lemma list_all_remove1: "list_all P xs \<Longrightarrow> list_all P (remove1 x xs)"
  by (induction xs) auto

lemma wf_list_upd:
  "wf_state s \<Longrightarrow> distinct (map n_id l) \<Longrightarrow> list_all (\<lambda>n. n_invitation n < inv_next s) l \<Longrightarrow>
   wf_state (s\<lparr>clients := (clients s)(c := (clients s c)\<lparr>invitations_head := l\<rparr>)\<rparr>)"
  by (simp add: wf_state_def)

lemma wf_distinct: "wf_state s \<Longrightarrow> distinct (map n_id (invitations_head (clients s c)))"
  by (simp add: wf_state_def)

lemma wf_nodes: "wf_state s \<Longrightarrow> list_all (\<lambda>n. n_invitation n < inv_next s) (invitations_head (clients s c))"
  by (simp add: wf_state_def)

lemma wf_remove:
  "client_remove_invitation c ip s = (r, s') \<Longrightarrow> wf_state s \<Longrightarrow> wf_state s'"
  unfolding client_remove_invitation_def Let_def
  by (auto split: option.splits
           intro!: wf_inv_unref wf_list_upd distinct_map_remove1 list_all_remove1 wf_distinct wf_nodes)

lemma wf_post: "wf_state s \<Longrightarrow> wf_state (player_post_result a b r s)"
  by (erule wf_same)
     (auto simp: player_post_result_def Let_def split: option.splits prod.splits)


lemma find_lowest_from_props:
  "i \<le> find_lowest_id_from cl i \<and>
   find_lowest_id_from cl i \<notin> n_id ` set (invitations_head cl) \<and>
   (\<forall>j. i \<le> j \<and> j < find_lowest_id_from cl i \<longrightarrow> j \<in> n_id ` set (invitations_head cl))"
proof (induction cl i rule: find_lowest_id_from.induct)
  case (1 cl i)
  show ?case
  proof (cases "id_exists_in_client_invitation cl i = 0")
    case True
    then have "find (\<lambda>n. n_id n = i) (invitations_head cl) = None"
      by (auto simp: id_exists_in_client_invitation_def split: option.splits)
    then have "i \<notin> n_id ` set (invitations_head cl)"
      by (auto simp: find_None_iff)
    with True show ?thesis
      by (auto simp: find_lowest_id_from.simps [of cl i])
  next
    case False
    then obtain n where "find (\<lambda>n. n_id n = i) (invitations_head cl) = Some n"
      by (auto simp: id_exists_in_client_invitation_def split: option.splits)
    then have mem: "i \<in> n_id ` set (invitations_head cl)"
      by (auto simp: find_Some_iff)
    have eq: "find_lowest_id_from cl i = find_lowest_id_from cl (i + 1)"
      using False by (simp add: find_lowest_id_from.simps [of cl i])
    from "1.IH" [OF False] have IH:
      "i + 1 \<le> find_lowest_id_from cl (i + 1)"
      "find_lowest_id_from cl (i + 1) \<notin> n_id ` set (invitations_head cl)"
      "\<forall>j. i + 1 \<le> j \<and> j < find_lowest_id_from cl (i + 1) \<longrightarrow> j \<in> n_id ` set (invitations_head cl)"
      by auto
    show ?thesis
      unfolding eq using IH mem
      by (smt (verit, best))
  qed
qed

lemma lowest_id_props:
  "0 \<le> find_lowest_id_availalble cl"
  "find_lowest_id_availalble cl \<notin> n_id ` set (invitations_head cl)"
  "0 \<le> j \<Longrightarrow> j < find_lowest_id_availalble cl \<Longrightarrow> j \<in> n_id ` set (invitations_head cl)"
  using find_lowest_from_props [of 0 cl] by (auto simp: find_lowest_id_availalble_def)

lemma wf_cons:
  "wf_state s \<Longrightarrow> nid \<notin> n_id ` set (invitations_head (clients s c)) \<Longrightarrow> ip < inv_next s \<Longrightarrow>
   wf_state (s\<lparr>clients := (clients s)(c := clients s c\<lparr>invitations_head :=
                  \<lparr>n_invitation = ip, n_id = nid\<rparr> # invitations_head (clients s c)\<rparr>)\<rparr>)"
  by (simp add: wf_state_def)

lemma wf_add:
  assumes "client_add_invitation c ip s = (r, s')" "ip < inv_next s" "wf_state s"
  shows "wf_state s'"
proof -
  obtain ok s0 where m: "malloc s = (ok, s0)" by (rule prod.exhaust)
  have w0: "wf_state s0" by (rule wf_malloc [OF m assms(3)])
  have n0: "ip < inv_next s0" using assms(2) inv_next_malloc [OF m] by simp
  show ?thesis
  proof (cases ok)
    case False
    then show ?thesis using assms(1) w0 by (auto simp: client_add_invitation_def m)
  next
    case True
    then have "s' = inv_ref ip (s0\<lparr>clients := (clients s0)(c := clients s0 c\<lparr>invitations_head :=
                  \<lparr>n_invitation = ip, n_id = find_lowest_id_availalble (clients s0 c)\<rparr> #
                  invitations_head (clients s0 c)\<rparr>)\<rparr>)"
      using assms(1) by (auto simp: client_add_invitation_def m Let_def)
    then show ?thesis
      by (simp add: wf_inv_ref wf_cons [OF w0 lowest_id_props(2) n0])
  qed
qed

lemma inv_next_client_ref [simp]: "inv_next (client_ref c s) = inv_next s"
  by (simp add: client_ref_def)

lemma wf_inv_create:
  assumes "inv_create a b sr tr s = (ipo, s')" "a \<noteq> b"
    "(sr = FIRST_PLAYER_ROLE \<and> tr = SECOND_PLAYER_ROLE) \<or> (sr = SECOND_PLAYER_ROLE \<and> tr = FIRST_PLAYER_ROLE)"
    "wf_state s"
  shows "wf_state s' \<and> (\<forall>ip. ipo = Some ip \<longrightarrow> ip < inv_next s')"
proof -
  obtain ok s0 where m: "malloc s = (ok, s0)" by (rule prod.exhaust)
  obtain ok2 s1 where x: "pthread_mutex_init s0 = (ok2, s1)" by (rule prod.exhaust)
  have w1: "wf_state s1" by (rule wf_mutex [OF x wf_malloc [OF m assms(4)]])
  have w0: "wf_state s0" by (rule wf_malloc [OF m assms(4)])
  show ?thesis
  proof (cases "ok \<and> ok2")
    case False
    then show ?thesis using assms(1) w0 w1 by (auto simp: inv_create_def m x split: if_splits)
  next
    case True
    let ?s2 = "s1\<lparr>invs := (invs s1)(inv_next s1 := \<lparr>i_ref_count = 1, sender = a, recipient = b,
                                                     source_role = sr, target_role = tr,
                                                     game = None, state = INV_OPEN_STATE\<rparr>),
                          inv_next := inv_next s1 + 1\<rparr>"
    have e: "s' = client_ref b (client_ref a ?s2)" "ipo = Some (inv_next s1)"
      using assms(1) True by (auto simp: inv_create_def m x Let_def)
    have "wf_state ?s2"
      using w1 assms(2,3) by (auto simp: wf_state_def roles_ok_def less_Suc_eq list_all_iff)
    then show ?thesis
      unfolding e by (auto intro!: wf_client_ref)
  qed
qed

lemma inv_next_add: "client_add_invitation c ip s = (r, s') \<Longrightarrow> inv_next s' = inv_next s"
  by (auto simp: client_add_invitation_def Let_def inv_ref_def split: if_splits prod.splits
           dest: inv_next_malloc)

lemmas wf_intros = wf_player_ref wf_player_unref wf_client_ref wf_client_unref wf_inv_ref wf_inv_unref
  wf_post wf_Malloc
lemmas wf_elims = wf_send wf_notification wf_remove wf_malloc wf_mutex wf_make_packet wf_unparse
  wf_parse wf_apply wf_inv_accept

lemma wf_make_invitation:
  assumes run: "client_make_invitation a b sr tr s = (r, s')" and ne: "a \<noteq> b"
    and roles: "(sr = FIRST_PLAYER_ROLE \<and> tr = SECOND_PLAYER_ROLE) \<or>
                (sr = SECOND_PLAYER_ROLE \<and> tr = FIRST_PLAYER_ROLE)"
    and wf: "wf_state s"
  shows "wf_state s'"
proof -
  obtain ipo s1 where ic: "inv_create a b sr tr s = (ipo, s1)" by (rule prod.exhaust)
  note w1 = wf_inv_create [OF ic ne roles wf]
  show ?thesis
  proof (cases ipo)
    case None
    then show ?thesis using run w1 by (auto simp: client_make_invitation_def ic)
  next
    case (Some ip)
    obtain cid s2 where a1: "client_add_invitation a ip s1 = (cid, s2)" by (rule prod.exhaust)
    have n1: "ip < inv_next s1" using w1 Some by simp
    have w2: "wf_state s2" using wf_add [OF a1 n1] w1 by simp
    have n2: "ip < inv_next s2" using n1 inv_next_add [OF a1] by simp
    obtain tid s3 where a2: "client_add_invitation b ip s2 = (tid, s3)" by (rule prod.exhaust)
    have w3: "wf_state s3" by (rule wf_add [OF a2 n2 w2])
    show ?thesis
      using run Some w2 w3
      by (auto simp: client_make_invitation_def ic a1 a2 Let_def
               split: option.splits prod.splits if_splits intro!: wf_intros elim!: wf_elims)
  qed
qed

lemma wf_revoke:
  "client_revoke_invitation c i s = (r, s') \<Longrightarrow> wf_state s \<Longrightarrow> wf_state s'"
  unfolding client_revoke_invitation_def Let_def
  by (auto split: option.splits prod.splits if_splits intro!: wf_intros elim!: wf_elims)

lemma wf_decline:
  "client_decline_invitation c i s = (r, s') \<Longrightarrow> wf_state s \<Longrightarrow> wf_state s'"
  unfolding client_decline_invitation_def Let_def
  by (auto split: option.splits prod.splits if_splits intro!: wf_intros elim!: wf_elims)

lemma wf_accept:
  "client_accept_invitation c i s = (r, str, s') \<Longrightarrow> wf_state s \<Longrightarrow> wf_state s'"
  unfolding client_accept_invitation_def Let_def
  by (auto split: option.splits prod.splits if_splits
       intro!: wf_intros elim!: wf_elims)

lemma wf_resign:
  "client_resign_game c i s = (r, s') \<Longrightarrow> wf_state s \<Longrightarrow> wf_state s'"
  unfolding client_resign_game_def Let_def
  by (auto split: option.splits prod.splits if_splits simp: inv_close_def Let_def
       intro!: wf_intros wf_invs_upd elim!: wf_elims)

lemma wf_move:
  "client_make_move c i m s = (r, s') \<Longrightarrow> wf_state s \<Longrightarrow> wf_state s'"
  unfolding client_make_move_def Let_def
  by (auto split: option.splits prod.splits if_splits
       intro!: wf_intros wf_game_upd elim!: wf_elims)

lemma wf_fold:
  "(\<And>x s. wf_state s \<Longrightarrow> wf_state (f x s)) \<Longrightarrow> wf_state s \<Longrightarrow> wf_state (fold f xs s)"
  by (induction xs arbitrary: s) auto

lemma wf_all_players:
  "creg_all_players s = (pl, s') \<Longrightarrow> wf_state s \<Longrightarrow> wf_state s'"
  unfolding creg_all_players_def Let_def
  by (auto split: prod.splits if_splits intro!: wf_fold wf_intros elim!: wf_malloc)

lemma wf_check_name:
  "check_if_other_clients_logged_in_with_same_name n s = (r, s') \<Longrightarrow> wf_state s \<Longrightarrow> wf_state s'"
  unfolding check_if_other_clients_logged_in_with_same_name_def Let_def
  by (auto split: prod.splits option.splits intro!: wf_fold wf_intros elim!: wf_all_players)

lemma wf_check_player:
  "check_if_other_clients_logged_in_with_same_player n s = (r, s') \<Longrightarrow> wf_state s \<Longrightarrow> wf_state s'"
  unfolding check_if_other_clients_logged_in_with_same_player_def Let_def
  by (auto split: prod.splits option.splits list.splits intro!: wf_fold wf_intros elim!: wf_all_players)

lemma wf_player_create:
  "player_create n s = (p, s') \<Longrightarrow> wf_state s \<Longrightarrow> wf_state s'"
  unfolding player_create_def Let_def
  by (auto split: prod.splits if_splits intro!: wf_intros dest!: wf_mutex)

lemma wf_preg_register:
  "preg_register n s = (p, s') \<Longrightarrow> wf_state s \<Longrightarrow> wf_state s'"
  unfolding preg_register_def Let_def
  by (auto split: option.splits prod.splits if_splits intro!: wf_intros
           elim!: wf_malloc wf_player_create)

lemma wf_login_upd:
  "wf_state s \<Longrightarrow> wf_state (s\<lparr>clients := (clients s)(c := clients s c\<lparr>logged_in := a, c_player := b\<rparr>)\<rparr>)"
  by (erule wf_same) auto

lemma wf_login:
  "client_login c p s = (r, s') \<Longrightarrow> wf_state s \<Longrightarrow> wf_state s'"
  unfolding client_login_def Let_def
  by (auto split: prod.splits if_splits intro!: wf_intros wf_login_upd elim!: wf_check_player)

lemma wf_lookup:
  "creg_lookup u s = (r, s') \<Longrightarrow> wf_state s \<Longrightarrow> wf_state s'"
  unfolding creg_lookup_def
  by (auto split: option.splits intro!: wf_intros)

lemma wf_logout_node: "wf_state s \<Longrightarrow> wf_state (logout_node c nd s)"
  unfolding logout_node_def
  by (auto intro: wf_resign [OF surjective_pairing] wf_revoke [OF surjective_pairing]
                  wf_decline [OF surjective_pairing])

lemma wf_logout:
  "client_logout c s = (r, s') \<Longrightarrow> wf_state s \<Longrightarrow> wf_state s'"
  unfolding client_logout_def Let_def
  by (auto split: if_splits intro!: wf_fold wf_logout_node wf_intros)

lemma wf_nack: "wf_state s \<Longrightarrow> wf_state (snd (client_send_nack c s))"
  by (auto simp: client_send_nack_def split: prod.splits option.splits elim!: wf_send wf_make_packet)

lemma wf_ack: "wf_state s \<Longrightarrow> wf_state (snd (client_send_ack c d n s))"
  by (auto simp: client_send_ack_def split: prod.splits option.splits elim!: wf_send wf_make_packet)

lemma wf_send_snd: "wf_state s \<Longrightarrow> wf_state (snd (client_send_packet c h d s))"
  by (rule wf_send [OF surjective_pairing])

lemmas wf_ops = wf_revoke wf_decline wf_accept wf_resign wf_move
  wf_check_name wf_preg_register wf_login wf_lookup wf_all_players
lemmas wf_replies = wf_nack wf_ack wf_send_snd

lemma wf_service_login: "service_login c h d li s = (li', s') \<Longrightarrow> wf_state s \<Longrightarrow> wf_state s'"
  unfolding service_login_def Let_def
  by (auto split: prod.splits if_splits intro!: wf_replies wf_intros elim!: wf_ops wf_elims)

lemma wf_users_loop:
  "users_loop c ps sp n s = (fin, sp', n', s') \<Longrightarrow> wf_state s \<Longrightarrow> wf_state s'"
proof (induction ps arbitrary: sp n s)
  case Nil
  then show ?case by simp
next
  case (Cons p ps)
  obtain ok s2 where m1: "malloc (player_unref (Some p) s) = (ok, s2)" by (rule prod.exhaust)
  obtain ok2 s3 where m2: "malloc s2 = (ok2, s3)" by (rule prod.exhaust)
  have w2: "wf_state s2" by (rule wf_malloc [OF m1 wf_player_unref [OF Cons.prems(2)]])
  have w3: "wf_state s3" by (rule wf_malloc [OF m2 w2])
  show ?case
    using Cons.prems(1) w2 w3 Cons.IH [OF _ w3]
    by (auto simp: Let_def m1 m2 split: if_splits option.splits intro: wf_nack)
qed

lemma wf_service_users: "service_users c h d li s = (li', s') \<Longrightarrow> wf_state s \<Longrightarrow> wf_state s'"
  unfolding service_users_def Let_def
  by (auto split: prod.splits if_splits option.splits intro!: wf_replies wf_intros
           elim!: wf_ops wf_elims wf_users_loop)

lemma wf_service_invite: "service_invite c h d li s = (li', s') \<Longrightarrow> wf_state s \<Longrightarrow> wf_state s'"
  unfolding service_invite_def Let_def
  by (auto split: prod.splits if_splits option.splits
           intro!: wf_replies wf_intros elim!: wf_ops wf_elims wf_make_invitation)

lemma wf_service_revoke: "service_revoke c h d li s = (li', s') \<Longrightarrow> wf_state s \<Longrightarrow> wf_state s'"
  unfolding service_revoke_def Let_def
  by (auto split: prod.splits if_splits option.splits intro!: wf_replies wf_intros elim!: wf_ops wf_elims)

lemma wf_service_decline: "service_decline c h d li s = (li', s') \<Longrightarrow> wf_state s \<Longrightarrow> wf_state s'"
  unfolding service_decline_def Let_def
  by (auto split: prod.splits if_splits option.splits intro!: wf_replies wf_intros elim!: wf_ops wf_elims)

lemma wf_service_accept: "service_accept c h d li s = (li', s') \<Longrightarrow> wf_state s \<Longrightarrow> wf_state s'"
  unfolding service_accept_def Let_def
  by (auto split: prod.splits if_splits option.splits intro!: wf_replies wf_intros elim!: wf_ops wf_elims)

lemma wf_service_move: "service_move c h d li s = (li', s') \<Longrightarrow> wf_state s \<Longrightarrow> wf_state s'"
  unfolding service_move_def Let_def
  by (auto split: prod.splits if_splits option.splits intro!: wf_replies wf_intros elim!: wf_ops wf_elims)

lemma wf_service_resign: "service_resign c h d li s = (li', s') \<Longrightarrow> wf_state s \<Longrightarrow> wf_state s'"
  unfolding service_resign_def Let_def
  by (auto split: prod.splits if_splits option.splits intro!: wf_replies wf_intros elim!: wf_ops wf_elims)

lemma wf_service_frame: "service_frame c h d (li, s) = (li', s') \<Longrightarrow> wf_state s \<Longrightarrow> wf_state s'"
  unfolding service_frame_def
  by (auto split: if_splits elim: wf_service_login wf_service_users wf_service_invite wf_service_revoke
        wf_service_decline wf_service_accept wf_service_move wf_service_resign)

lemma wf_unregister: "wf_state s \<Longrightarrow> wf_state (snd (creg_unregister c s))"
  unfolding creg_unregister_def
  by (auto intro!: wf_intros)

lemma wf_service_exit: "wf_state s \<Longrightarrow> wf_state (service_exit c li s)"
  unfolding service_exit_def Let_def
  by (auto intro!: wf_unregister wf_intros wf_logout [OF surjective_pairing])

lemma wf_client_create: "client_create f s = (c, s') \<Longrightarrow> wf_state s \<Longrightarrow> wf_state s'"
  unfolding client_create_def Let_def
  by (auto split: prod.splits if_splits dest!: wf_malloc wf_mutex simp: wf_state_def)

lemma wf_insert: "wf_state s \<Longrightarrow> wf_state (insert_client c s)"
  unfolding insert_client_def
  by (auto split: prod.splits elim: wf_malloc)

lemma wf_register: "creg_register f s = (r, s') \<Longrightarrow> wf_state s \<Longrightarrow> wf_state s'"
  unfolding creg_register_def
  by (auto split: if_splits prod.splits option.splits intro!: wf_insert elim!: wf_client_create)

lemma wf_start: "service_start f s = (r, s') \<Longrightarrow> wf_state s \<Longrightarrow> wf_state s'"
  unfolding service_start_def
  by (auto split: prod.splits option.splits intro!: wf_Malloc elim!: wf_register)

lemma wf_init: "wf_state init_state"
  by (simp add: wf_state_def init_state_def)

lemma reachable_wf: "reachable L s \<Longrightarrow> wf_state s"
proof (induction rule: reachable.induct)
  case r_init
  show ?case by (rule wf_init)
next
  case (r_env L s k a)
  then show ?case by simp
next
  case (r_connect L s f c s')
  then show ?case by (auto elim: wf_start)
next
  case (r_refused L s f s')
  then show ?case by (auto elim: wf_start)
next
  case (r_frame L s c h d li s')
  then show ?case by (auto elim: wf_service_frame intro: wf_recv)
next
  case (r_exit L s c)
  then show ?case by (auto intro: wf_service_exit)
qed

section \<open>Draws\<close>

text \<open>
  C8. When eight legal moves have been made from the initial position and a ninth legal
  move leaves neither player with three in a row, the game is terminated with winner
  \<open>NULL_ROLE\<close>. \<open>client_make_move\<close> for that ninth move then posts exactly one result when it
  succeeds, with outcome 0, which \<open>player_post_result\<close> scores 1/2 for each player; when it
  fails (an allocation has failed or a notification could not be sent) it posts nothing.
\<close>

theorem draw_posts_outcome_zero:
  assumes hist: "apply_moves game_create ms8 = Some g" "length ms8 = 8"
    and node: "find (\<lambda>n. n_id n = i) (invitations_head (clients s c)) = Some nd"
    and gm: "game (invs s (n_invitation nd)) = Some g"
    and parse: "game_parse_move g
                  (if c = sender (invs s (n_invitation nd)) then source_role (invs s (n_invitation nd))
                   else target_role (invs s (n_invitation nd))) mv = Some m"
    and app: "game_apply_move g m = (0, g')"
    and nowin: "win g' 1 = 0" "win g' 2 = 0"
    and run: "client_make_move c i (Some mv) s = (r, s')"
  shows "terminated g' = 1 \<and> winner g' = NULL_ROLE \<and> game_is_over g' = 1 \<and>
         game_get_winner g' = NULL_ROLE \<and>
         (r = 0 \<longrightarrow> posted s' = posted s @
             [\<lparr>player1 = client_get_player (clients s
                  (if c = sender (invs s (n_invitation nd)) then sender (invs s (n_invitation nd))
                   else recipient (invs s (n_invitation nd)))),
               player2 = client_get_player (clients s
                  (if c = sender (invs s (n_invitation nd)) then recipient (invs s (n_invitation nd))
                   else sender (invs s (n_invitation nd)))),
               outcome = 0\<rparr>]) \<and>
         (r \<noteq> 0 \<longrightarrow> posted s' = posted s) \<and>
         result_scores 0 = Some (1 / 2, 1 / 2)"
proof -
  note d = nine_moves_draw [OF hist app nowin]
  have post: "(r = 0 \<longrightarrow> posted s' = posted s @
             [\<lparr>player1 = client_get_player (clients s
                  (if c = sender (invs s (n_invitation nd)) then sender (invs s (n_invitation nd))
                   else recipient (invs s (n_invitation nd)))),
               player2 = client_get_player (clients s
                  (if c = sender (invs s (n_invitation nd)) then recipient (invs s (n_invitation nd))
                   else sender (invs s (n_invitation nd)))),
               outcome = 0\<rparr>]) \<and>
         (r \<noteq> 0 \<longrightarrow> posted s' = posted s)"
    using run d unfolding client_make_move_def Let_def game_parse_move_call_def game_apply_move_call_def
    by (simp add: node gm parse app)
       (auto split: option.splits prod.splits if_splits
             dest!: quiet_malloc quiet_unparse quiet_notification quiet_remove
             simp: posted_post quiet_def client_get_player_def app)
  show ?thesis using d post by (simp add: result_scores_draw)
qed

section \<open>The session of two clients, step by step\<close>


lemmas eval_defs = hdr_def st1_def st2_def st_alice_def st_login_def st_invited_def st_accepted_def
  malloc_def pthread_mutex_init_def Malloc_def proto_recv_packet_def
  game_create_call_def game_unparse_state_call_def game_parse_move_call_def game_apply_move_call_def
  make_packet_call_def send_notification_def
  service_start_def creg_register_def client_create_def insert_client_def fd_already_used_def
  MAX_CLIENTS_def
  init_state_def service_frame_def service_login_def service_invite_def service_accept_def service_move_def
  service_users_def service_revoke_def service_decline_def service_resign_def
  check_if_other_clients_logged_in_with_same_name_def
  check_if_other_clients_logged_in_with_same_player_def
  creg_all_players_def List.map_filter_def client_get_player_def preg_register_def player_create_def
  client_login_def
  player_ref_def player_unref_def client_send_ack_def client_send_nack_def client_send_packet_def
  proto_send_packet_def make_packet_def construct_packet_def c_str_def Let_def
  creg_lookup_def client_ref_def client_unref_def inv_ref_def inv_unref_def inv_create_def
  client_make_invitation_def client_add_invitation_def client_remove_invitation_def
  find_lowest_id_availalble_def find_lowest_id_from.simps id_exists_in_client_invitation_def
  client_accept_invitation_def inv_accept_def game_create_def game_unparse_state_def cell_str_def
  client_make_move_def game_parse_move_def game_apply_move_def win_def game_is_over_def game_get_winner_def
  c_char_def role_code_def move_result_def c_trunc_def player_post_result_def result_scores_def game_unref_def
  client_logout_def logout_node_def creg_unregister_def service_exit_def frame_ok_def
  JEUX_NO_PKT_def JEUX_LOGIN_PKT_def JEUX_USERS_PKT_def JEUX_INVITE_PKT_def JEUX_REVOKE_PKT_def
  JEUX_ACCEPT_PKT_def JEUX_DECLINE_PKT_def JEUX_MOVE_PKT_def JEUX_RESIGN_PKT_def JEUX_ACK_PKT_def
  JEUX_NACK_PKT_def JEUX_INVITED_PKT_def JEUX_REVOKED_PKT_def JEUX_ACCEPTED_PKT_def
  JEUX_DECLINED_PKT_def JEUX_MOVED_PKT_def JEUX_RESIGNED_PKT_def JEUX_ENDED_PKT_def
  PLAYER_INITIAL_RATING_def

lemma reg1: "service_start 3 init_state = (Some 0, st1)"
  by (simp add: eval_defs)

lemma reg2: "service_start 4 st1 = (Some 1, st2)"
  by (simp add: eval_defs)

lemma step1: "service_frame 0 (hdr JEUX_LOGIN_PKT 0 0 5) (Some ''alice'') (0, st2) = (1, st_alice)"
  by (simp add: eval_defs)

lemma step2: "service_frame 1 (hdr JEUX_LOGIN_PKT 0 0 3) (Some ''bob'') (0, st_alice) = (1, st_login)"
  by (simp add: eval_defs)

lemma step3: "service_frame 0 (hdr JEUX_INVITE_PKT 0 2 3) (Some ''bob'') (1, st_login) = (1, st_invited)"
  by (simp add: eval_defs)

lemma step4: "service_frame 1 (hdr JEUX_ACCEPT_PKT 0 0 0) None (1, st_invited) = (1, st_accepted)"
  by (simp add: eval_defs)

lemma cregs: "creg st2 = [1, 0]" "creg st_alice = [1, 0]" "creg st_login = [1, 0]"
  by (simp_all add: eval_defs)

lemma allocs:
  "alloc st2 = []" "alloc st_alice = []" "alloc st_login = []" "alloc st_invited = []"
  "alloc st_accepted = []"
  by (simp_all add: eval_defs)

lemma recv_calm: "alloc s = [] \<Longrightarrow> proto_recv_packet h s = s"
  by (simp add: proto_recv_packet_def malloc_def)

lemma malloc_calm: "alloc s = [] \<Longrightarrow> malloc s = (True, s)"
  by (simp add: malloc_def)






lemma accepted_facts0:
  "invitations_head (clients st_accepted 0) = [\<lparr>n_invitation = 0, n_id = 0\<rparr>]"
  "invitations_head (clients st_accepted 1) = [\<lparr>n_invitation = 0, n_id = 0\<rparr>]"
  "sender (invs st_accepted 0) = 0" "recipient (invs st_accepted 0) = 1"
  "source_role (invs st_accepted 0) = FIRST_PLAYER_ROLE"
  "target_role (invs st_accepted 0) = SECOND_PLAYER_ROLE"
  "i_ref_count (invs st_accepted 0) = 2"
  "fd (clients st_accepted 0) = 3" "fd (clients st_accepted 1) = 4"
  "sock st_accepted = (\<lambda>f. SOCK_UP)"
  "logged_in (clients st_accepted 0) = 1" "logged_in (clients st_accepted 1) = 1"
  "c_player (clients st_accepted 0) = Some 0" "c_player (clients st_accepted 1) = Some 1"
  "posted st_accepted = []"
  by (simp_all add: eval_defs)

lemmas accepted_facts = accepted_facts0 accepted_facts0 [unfolded One_nat_def]

lemma reach_login: "\<exists>L. reachable L st_login \<and> L 0 = 1 \<and> L 1 = 1"
proof -
  let ?L1 = "(\<lambda>c::nat. 0::int)(0 := 0)"
  let ?L2 = "?L1(1 := 0)"
  let ?L3 = "?L2(0 := 1)"
  let ?L4 = "?L3(1 := 1)"
  have a: "reachable ?L1 st1"
    by (rule r_connect [OF r_init reg1])
  have b: "reachable ?L2 st2"
    by (rule r_connect [OF a reg2])
  have c: "reachable ?L3 st_alice"
  proof (rule r_frame)
    show "reachable ?L2 st2" by (rule b)
    show "0 \<in> set (creg st2)" by (simp add: cregs)
    show "frame_ok (hdr JEUX_LOGIN_PKT 0 0 5) (Some ''alice'')" by (simp add: frame_ok_def hdr_def)
    show "service_frame 0 (hdr JEUX_LOGIN_PKT 0 0 5) (Some ''alice'')
            (?L2 0, proto_recv_packet (hdr JEUX_LOGIN_PKT 0 0 5) st2) = (1, st_alice)"
      using step1 by (simp add: recv_calm allocs)
  qed
  have d: "reachable ?L4 st_login"
  proof (rule r_frame)
    show "reachable ?L3 st_alice" by (rule c)
    show "1 \<in> set (creg st_alice)" by (simp add: cregs)
    show "frame_ok (hdr JEUX_LOGIN_PKT 0 0 3) (Some ''bob'')" by (simp add: frame_ok_def hdr_def)
    show "service_frame 1 (hdr JEUX_LOGIN_PKT 0 0 3) (Some ''bob'')
            (?L3 1, proto_recv_packet (hdr JEUX_LOGIN_PKT 0 0 3) st_alice) = (1, st_login)"
      using step2 by (simp add: recv_calm allocs)
  qed
  show ?thesis
    by (intro exI [of _ ?L4] conjI d) simp_all
qed

lemma reach_invited: "\<exists>L. reachable L st_invited"
proof -
  obtain L where L: "reachable L st_login" "L 0 = 1"
    using reach_login by blast
  have "reachable (L(0 := 1)) st_invited"
  proof (rule r_frame)
    show "reachable L st_login" by (rule L(1))
    show "0 \<in> set (creg st_login)" by (simp add: cregs)
    show "frame_ok (hdr JEUX_INVITE_PKT 0 2 3) (Some ''bob'')" by (simp add: frame_ok_def hdr_def)
    show "service_frame 0 (hdr JEUX_INVITE_PKT 0 2 3) (Some ''bob'')
            (L 0, proto_recv_packet (hdr JEUX_INVITE_PKT 0 2 3) st_login) = (1, st_invited)"
      using step3 by (simp add: L(2) recv_calm allocs)
  qed
  then show ?thesis by blast
qed

lemma m8: "apply_moves game_create moves8 = Some game8"
  by code_simp

lemma m9: "game_apply_move game8 \<lparr>player = 1, square = 9\<rparr> = (0, game9)"
  by code_simp

lemma p9: "game_parse_move game8 FIRST_PLAYER_ROLE ''9'' = Some \<lparr>player = 1, square = 9\<rparr>"
  by (simp add: game8_def game_parse_move_def c_char_def)

lemma w9: "win game9 1 = 0" "win game9 2 = 0"
  by (simp_all add: game9_def win_def)

lemma play8_facts0:
  "find (\<lambda>n. n_id n = 0) (invitations_head (clients st_play8 0)) = Some \<lparr>n_invitation = 0, n_id = 0\<rparr>"
  "game (invs st_play8 0) = Some game8"
  "sender (invs st_play8 0) = 0" "recipient (invs st_play8 0) = 1"
  "source_role (invs st_play8 0) = FIRST_PLAYER_ROLE"
  "client_get_player (clients st_play8 0) = Some 0" "client_get_player (clients st_play8 1) = Some 1"
  "posted st_play8 = []" "alloc st_play8 = []"
  by (simp_all add: st_play8_def accepted_facts client_get_player_def allocs)

lemmas play8_facts = play8_facts0 play8_facts0 [unfolded One_nat_def]

lemma t9: "fst (client_make_move 0 0 (Some ''9'') st_play8) = 0"
  by (simp add: client_make_move_def play8_facts p9 m9 Let_def st_play8_def accepted_facts allocs
        game_parse_move_call_def game_apply_move_call_def game_unparse_state_call_def
        send_notification_def make_packet_call_def malloc_def
        client_send_packet_def proto_send_packet_def make_packet_def game_unparse_state_def
        game9_def cell_str_def game_is_over_def game_get_winner_def client_remove_invitation_def
        inv_unref_def role_code_def)

section \<open>One reply for each request\<close>






end
